theory Spec2Isabelle
  imports Main "HOL-Library.Word"
begin

section \<open>Go values and the fragment of fmt that the package uses\<close>

text \<open>
  An \<^verbatim>\<open>interface{}\<close> operand is either a Go string or a value of another basic kind.
  \<open>VOther typ txt js\<close> stands for a value of another type named \<open>typ\<close>, whose
  \<^verbatim>\<open>%v\<close> text is \<open>txt\<close> and for which \<^verbatim>\<open>json.MarshalIndent\<close> returns \<open>js\<close>:
  \<open>Inl\<close> the text of the error, \<open>Inr\<close> the document; under \<^verbatim>\<open>%s\<close> and
  \<^verbatim>\<open>%d\<close> it takes the bad-verb form, as a float or a bool does. \<open>VErr e\<close> is an
  error made by \<^verbatim>\<open>errors.New(e)\<close>.
\<close>

datatype basic = VNil | VInt int | VErr string | VOther string string "string + string"

datatype iface = Str string | Basic basic

abbreviation NL :: char where "NL \<equiv> CHR 0x0A"
abbreviation TAB :: char where "TAB \<equiv> CHR 0x09"

definition digit :: "nat \<Rightarrow> char" where
  "digit d = ''0123456789'' ! d"

function showNat :: "nat \<Rightarrow> string" where
  "showNat n = (if n < 10 then [digit n] else showNat (n div 10) @ [digit (n mod 10)])"
  by pat_completeness auto
termination
  by (relation "measure id") auto

declare showNat.simps [simp del]

definition showInt :: "int \<Rightarrow> string" where
  "showInt i = (if i < 0 then CHR ''-'' # showNat (nat (- i)) else showNat (nat i))"

fun typeName :: "iface \<Rightarrow> string" where
  "typeName (Str s) = ''string''"
| "typeName (Basic VNil) = ''<nil>''"
| "typeName (Basic (VInt i)) = ''int''"
| "typeName (Basic (VErr e)) = ''*errors.errorString''"
| "typeName (Basic (VOther typ txt js)) = typ"

fun vtext :: "iface \<Rightarrow> string" where
  "vtext (Str s) = s"
| "vtext (Basic VNil) = ''<nil>''"
| "vtext (Basic (VInt i)) = showInt i"
| "vtext (Basic (VErr e)) = e"
| "vtext (Basic (VOther typ txt js)) = txt"

definition badVerb :: "char \<Rightarrow> iface \<Rightarrow> string" where
  "badVerb c a =
     (case a of
        Basic VNil \<Rightarrow> ''%!'' @ [c] @ ''(<nil>)''
      | _ \<Rightarrow> ''%!'' @ [c] @ ''('' @ typeName a @ ''='' @ vtext a @ '')'')"

text \<open>
  One operand under one verb. The fragment is \<^verbatim>\<open>%v\<close>, \<^verbatim>\<open>%s\<close> and \<^verbatim>\<open>%d\<close>
  without flags, width or precision: these are the verbs of every format string of the
  package. Any other verb character is rendered in the bad-verb form.
\<close>

definition fmtArg :: "char \<Rightarrow> iface \<Rightarrow> string" where
  "fmtArg c a =
     (if c = CHR ''v'' then vtext a
      else if c = CHR ''s'' then
        (case a of Str s \<Rightarrow> s | Basic (VErr e) \<Rightarrow> e | _ \<Rightarrow> badVerb c a)
      else if c = CHR ''d'' then
        (case a of Basic (VInt i) \<Rightarrow> showInt i
         | Basic (VErr e) \<Rightarrow> ''&{'' @ badVerb c (Str e) @ ''}''
         | _ \<Rightarrow> badVerb c a)
      else badVerb c a)"

fun extras :: "iface list \<Rightarrow> string" where
  "extras [] = []"
| "extras [a] = (case a of Basic VNil \<Rightarrow> ''<nil>'' | _ \<Rightarrow> typeName a @ ''='' @ vtext a)"
| "extras (a # as) =
     (case a of Basic VNil \<Rightarrow> ''<nil>'' | _ \<Rightarrow> typeName a @ ''='' @ vtext a) @ '', '' @ extras as"

fun Sprintf :: "string \<Rightarrow> iface list \<Rightarrow> string" where
  "Sprintf [] [] = []"
| "Sprintf [] (a # as) = ''%!(EXTRA '' @ extras (a # as) @ '')''"
| "Sprintf [c] as = (if c = CHR ''%'' then ''%!(NOVERB)'' @ Sprintf [] as else c # Sprintf [] as)"
| "Sprintf (c # v # fs) as =
     (if c \<noteq> CHR ''%'' then c # Sprintf (v # fs) as
      else if v = CHR ''%'' then CHR ''%'' # Sprintf fs as
      else (case as of
              [] \<Rightarrow> ''%!'' @ [v] @ ''(MISSING)'' @ Sprintf fs []
            | a # as' \<Rightarrow> fmtArg v a @ Sprintf fs as'))"

section \<open>The logger state (log.go)\<close>

text \<open>
  An \<^verbatim>\<open>io.Writer\<close> is \<open>None\<close> for the nil interface and \<open>Some k\<close> for sink number
  \<open>k\<close>. The process streams are sinks 1 (\<^verbatim>\<open>os.Stdout\<close>) and 2 (\<^verbatim>\<open>os.Stderr\<close>).
\<close>

type_synonym Writer = "nat option"

definition os_Stdout :: Writer where "os_Stdout = Some 1"
definition os_Stderr :: Writer where "os_Stderr = Some 2"

text \<open>\<^verbatim>\<open>type line struct { w io.Writer; b []byte }\<close>\<close>

type_synonym line = "Writer \<times> string"

text \<open>A channel of lines: the buffered lines, oldest first, the capacity and the closed mark.\<close>

record chan =
  buf :: "line list"
  cap :: nat
  closed :: bool

definition emptyMessage :: string where
  "emptyMessage = ''**** LOG ERROR: MESSAGE IS EMPTY - PLEASE REPORT ****\<newline>''"

definition LoggingWasOff :: string where
  "LoggingWasOff = ''**** LOG WARNING: LOGGING WAS OFF - PLEASE REPORT ****\<newline>''"

text \<open>
  The fields of \<^verbatim>\<open>logger\<close> (the mutexes, the wait group and the timers are left out:
  a critical section is one step of the model, a timer is the event that it fires),
  followed by the sinks: \<open>content k\<close> is what sink \<open>k\<close> has received so far,
  \<open>spawned\<close> lists every \<^verbatim>\<open>go k.Write(v)\<close> executed, oldest first, and \<open>landed\<close>
  the positions in \<open>spawned\<close> of the writes that have completed.
\<close>

record world =
  dest :: "(8 word \<rightharpoonup> Writer) option"
  "write" :: "chan option"
  stallTimeout :: int
  bulkLines :: "(nat \<times> string) list"
  shutdown :: bool
  loggingOff :: bool
  pendingWrites :: "32 word"
  prefix :: string
  test :: "32 word"
  content :: "nat \<Rightarrow> string"
  spawned :: "(nat \<times> string) list"
  landed :: "nat list"

text \<open>\<^verbatim>\<open>var l = logger{..., bulkLines: make(map...), prefix: "PREFIX"}\<close> with empty sinks.\<close>

definition l0 :: world where
  "l0 = \<lparr>dest = None, write = None, stallTimeout = 0, bulkLines = [], shutdown = False,
         loggingOff = False, pendingWrites = 0, prefix = ''PREFIX'', test = 0,
         content = (\<lambda>k. []), spawned = [], landed = []\<rparr>"

text \<open>
  How a call ends when it does not return: with a panic and its message, or with the
  process exiting with a status, as after \<^verbatim>\<open>os.Exit\<close> and, with status 2, after
  a fatal error of the runtime.
\<close>

datatype stop = Panic string | Exit int

datatype outcome = Returns world | Stops stop world

fun final :: "outcome \<Rightarrow> world" where
  "final (Returns s) = s"
| "final (Stops p s) = s"

fun returned :: "outcome \<Rightarrow> bool" where
  "returned (Returns s) = True"
| "returned (Stops p s) = False"

definition and_then :: "outcome \<Rightarrow> (world \<Rightarrow> outcome) \<Rightarrow> outcome" where
  "and_then r f = (case r of Returns s \<Rightarrow> f s | Stops p s \<Rightarrow> Stops p s)"

section \<open>The background writer (safeWrite)\<close>

text \<open>\<^verbatim>\<open>l.bulkLines[ln.w] = append(l.bulkLines[ln.w], ln.b...)\<close>\<close>

fun bulk_append :: "nat \<Rightarrow> string \<Rightarrow> (nat \<times> string) list \<Rightarrow> (nat \<times> string) list" where
  "bulk_append k b [] = [(k, b)]"
| "bulk_append k b ((k', v) # al) =
     (if k' = k then (k', v @ b) # al else (k', v) # bulk_append k b al)"

text \<open>
  The body of \<^verbatim>\<open>case ln := <-l.write\<close> for a received line: a line with a writer
  is appended to that writer's bulk buffer, and the counter is decremented in any case.
\<close>

definition received :: "line \<Rightarrow> world \<Rightarrow> world" where
  "received ln s =
     s\<lparr>bulkLines := (case fst ln of None \<Rightarrow> bulkLines s
                                 | Some k \<Rightarrow> bulk_append k (snd ln) (bulkLines s)),
       pendingWrites := pendingWrites s - 1\<rparr>"

text \<open>
  The receive case of the select. On a nil channel and on an open, empty channel the
  case is not ready and nothing happens; a closed, drained channel delivers the zero
  line \<^verbatim>\<open>line{nil, nil}\<close>.
\<close>

definition safeWrite_recv :: "world \<Rightarrow> world" where
  "safeWrite_recv s =
     (case write s of
        None \<Rightarrow> s
      | Some ch \<Rightarrow>
          (case buf ch of
             ln # rest \<Rightarrow> received ln (s\<lparr>write := Some (ch\<lparr>buf := rest\<rparr>)\<rparr>)
           | [] \<Rightarrow> if closed ch then received (None, []) s else s))"

text \<open>\<^verbatim>\<open>flush\<close>: every bulk buffer is handed to a new goroutine and deleted.\<close>

definition flush :: "world \<Rightarrow> world" where
  "flush s = s\<lparr>spawned := spawned s @ bulkLines s, bulkLines := []\<rparr>"

text \<open>The \<open>i\<close>-th spawned write completes: its bytes reach the sink.\<close>

definition land :: "nat \<Rightarrow> world \<Rightarrow> world" where
  "land i s =
     (if i < length (spawned s) \<and> i \<notin> set (landed s)
      then s\<lparr>content := (content s)(fst (spawned s ! i) :=
                 content s (fst (spawned s ! i)) @ snd (spawned s ! i)),
             landed := landed s @ [i]\<rparr>
      else s)"

text \<open>
  What can happen while the writer goroutine is alive and no exit signal is taken:
  the select takes a line, the bulk timer fires, or a spawned write completes.
\<close>

datatype wstep = Recv | Tick | Land nat

fun safeWrite_step :: "wstep \<Rightarrow> world \<Rightarrow> world" where
  "safeWrite_step Recv s = safeWrite_recv s"
| "safeWrite_step Tick s = flush s"
| "safeWrite_step (Land i) s = land i s"

section \<open>The dispatcher (output)\<close>

text \<open>\<^verbatim>\<open>fmt.Fprintf(w, LoggingWasOff)\<close>: a synchronous write to the sink.\<close>

definition Fprintf :: "nat \<Rightarrow> string \<Rightarrow> world \<Rightarrow> world" where
  "Fprintf k txt s = s\<lparr>content := (content s)(k := content s k @ txt)\<rparr>"

text \<open>
  The outcome of the select between the channel send and the stall timer is decided by
  the timing of the run and is an input of the model.
\<close>

datatype select = SendWins | TimerWins

text \<open>
  Lines 258 to 268. A send on a nil channel never proceeds, so the timer wins; a send
  that proceeds on a closed channel panics. A send that wins on a channel without room
  is one that the writer made room for: the line is queued and the writer takes the
  oldest line in the same step (for an unbuffered channel, this very line).
\<close>

definition enqueue :: "line \<Rightarrow> select \<Rightarrow> world \<Rightarrow> outcome" where
  "enqueue ln sel s =
     (case write s of
        None \<Rightarrow> Returns (s\<lparr>loggingOff := True\<rparr>)
      | Some ch \<Rightarrow>
          (case sel of
             TimerWins \<Rightarrow> Returns (s\<lparr>loggingOff := True\<rparr>)
           | SendWins \<Rightarrow>
               if closed ch then Stops (Panic ''send on closed channel'') s
               else (let s' = s\<lparr>write := Some (ch\<lparr>buf := buf ch @ [ln]\<rparr>),
                               pendingWrites := pendingWrites s + 1\<rparr>
                     in Returns (if length (buf ch) < cap ch then s' else safeWrite_recv s'))))"

text \<open>Lines 238 to 270: the section under \<^verbatim>\<open>l.mu\<close>.\<close>

definition locked :: "nat \<Rightarrow> string \<Rightarrow> select \<Rightarrow> world \<Rightarrow> outcome" where
  "locked k b sel s =
     (if shutdown s then Returns s
      else if loggingOff s \<and> 0 < sint (pendingWrites s) then Returns s
      else enqueue (Some k, b) sel
             (if loggingOff s then Fprintf k LoggingWasOff (s\<lparr>loggingOff := False\<rparr>) else s))"

text \<open>
  Lines 225 to 236: the text to send. The argument list is \<open>None\<close> for a nil
  \<^verbatim>\<open>a\<close>. Indexing the last byte of an empty text panics.
\<close>

definition rendered :: "string \<Rightarrow> iface list option \<Rightarrow> string" where
  "rendered format a =
     (if format = [] then emptyMessage
      else (case a of None \<Rightarrow> format | Some args \<Rightarrow> Sprintf format args))"

definition payload :: "string \<Rightarrow> stop + string" where
  "payload txt =
     (if txt = [] then Inl (Panic ''index out of range [-1]'')
      else if last txt \<noteq> NL then Inr (txt @ [NL]) else Inr txt)"

definition "output" :: "Writer \<Rightarrow> string \<Rightarrow> iface list option \<Rightarrow> select \<Rightarrow> world \<Rightarrow> outcome" where
  "output w format a sel s =
     (case w of
        None \<Rightarrow> Returns s
      | Some k \<Rightarrow>
          (case payload (rendered format a) of
             Inl p \<Rightarrow> Stops p s
           | Inr b \<Rightarrow> locked k b sel s))"

section \<open>The device registry (device.go)\<close>

definition DevAll :: "8 word" where "DevAll = 0"
definition DevStart :: "8 word" where "DevStart = 1"
definition DevError :: "8 word" where "DevError = 2"
definition DevPanic :: "8 word" where "DevPanic = 3"
definition DevTrace :: "8 word" where "DevTrace = 4"
definition DevWarning :: "8 word" where "DevWarning = 5"
definition DevQuery :: "8 word" where "DevQuery = 6"
definition DevData :: "8 word" where "DevData = 7"
definition DevSplunk :: "8 word" where "DevSplunk = 8"

record DevWriter =
  Device :: "8 word"
  Writer :: Writer

text \<open>\<^verbatim>\<open>w = l.dest[d]\<close>: a missing key and a nil map both read as the nil writer.\<close>

definition Dev_get :: "8 word \<Rightarrow> world \<Rightarrow> Writer" where
  "Dev_get d s =
     (case dest s of
        None \<Rightarrow> None
      | Some m \<Rightarrow> (case m d of None \<Rightarrow> None | Some w \<Rightarrow> w))"

text \<open>\<^verbatim>\<open>Dev.All\<close>. An assignment to an entry of a nil map panics.\<close>

definition Dev_All :: "Writer \<Rightarrow> world \<Rightarrow> outcome" where
  "Dev_All w s =
     (case dest s of
        None \<Rightarrow> Stops (Panic ''assignment to entry in nil map'') s
      | Some m \<Rightarrow>
          Returns (s\<lparr>dest := Some (m(DevStart \<mapsto> w, DevError \<mapsto> w, DevPanic \<mapsto> w,
                                       DevTrace \<mapsto> w, DevWarning \<mapsto> w, DevQuery \<mapsto> w,
                                       DevData \<mapsto> w, DevSplunk \<mapsto> w))\<rparr>))"

section \<open>Shutdown and Init\<close>

text \<open>
  \<^verbatim>\<open>Shutdown\<close> sets the flag and closes the channel (closing a nil or a closed
  channel panics), then offers the exit signal and waits for the writer. \<open>drain\<close> is
  what the writer does before its select takes the exit case; it then flushes and
  sleeps, and \<open>grace\<close> lists the spawned writes that complete before \<^verbatim>\<open>Shutdown\<close>
  returns.
\<close>

definition Shutdown :: "wstep list \<Rightarrow> nat list \<Rightarrow> world \<Rightarrow> outcome" where
  "Shutdown drain grace s =
     (case write s of
        None \<Rightarrow> Stops (Panic ''close of nil channel'') (s\<lparr>shutdown := True\<rparr>)
      | Some ch \<Rightarrow>
          if closed ch then Stops (Panic ''close of closed channel'') (s\<lparr>shutdown := True\<rparr>)
          else
            (let s1 = s\<lparr>shutdown := True, write := Some (ch\<lparr>closed := True\<rparr>)\<rparr>;
                 s2 = fold safeWrite_step drain s1;
                 s3 = flush s2;
                 s4 = fold land grace s3
             in Returns (s4\<lparr>write := None, test := 0\<rparr>)))"

text \<open>The map literal of \<^verbatim>\<open>Init\<close>.\<close>

definition default_dest :: "8 word \<rightharpoonup> Writer" where
  "default_dest =
     [DevError \<mapsto> os_Stderr, DevPanic \<mapsto> os_Stderr, DevWarning \<mapsto> os_Stderr,
      DevStart \<mapsto> os_Stdout, DevTrace \<mapsto> os_Stdout, DevQuery \<mapsto> os_Stdout,
      DevData \<mapsto> os_Stdout, DevSplunk \<mapsto> os_Stdout]"

text \<open>The loop over \<^verbatim>\<open>dws\<close>, lines 138 to 153.\<close>

fun Init_devices :: "DevWriter list \<Rightarrow> world \<Rightarrow> outcome" where
  "Init_devices [] s = Returns s"
| "Init_devices (dw # dws) s =
     (if Device dw = DevAll then and_then (Dev_All (Writer dw) s) (Init_devices dws)
      else (case dest s of
              None \<Rightarrow> Stops (Panic ''assignment to entry in nil map'') s
            | Some m \<Rightarrow> Init_devices dws (s\<lparr>dest := Some (m(Device dw \<mapsto> Writer dw))\<rparr>)))"

text \<open>
  \<^verbatim>\<open>Init\<close>. A live channel is shut down first (with the writer's schedule \<open>drain\<close>
  and \<open>grace\<close>); \<^verbatim>\<open>make(chan line, bufferSize)\<close> panics on a negative size. The
  stall timeout is 250 ms in nanoseconds. Neither \<open>pendingWrites\<close> nor
  \<open>bulkLines\<close> is reset.
\<close>

definition Init :: "string \<Rightarrow> int \<Rightarrow> DevWriter list \<Rightarrow> wstep list \<Rightarrow> nat list \<Rightarrow> world \<Rightarrow> outcome" where
  "Init pfx bufferSize dws drain grace s =
     and_then (if write s \<noteq> None then Shutdown drain grace s else Returns s)
       (\<lambda>s1. if bufferSize < 0
             then Stops (Panic ''makechan: size out of range'') (s1\<lparr>prefix := pfx\<rparr>)
             else and_then
                    (Init_devices dws
                       (s1\<lparr>prefix := pfx,
                           write := Some \<lparr>buf = [], cap = nat bufferSize, closed = False\<rparr>,
                           stallTimeout := 250000000,
                           dest := Some default_dest\<rparr>))
                    (\<lambda>s2. Returns (s2\<lparr>loggingOff := False, shutdown := False\<rparr>)))"

definition InitTest :: "string \<Rightarrow> int \<Rightarrow> DevWriter list \<Rightarrow> wstep list \<Rightarrow> nat list \<Rightarrow> world \<Rightarrow> outcome" where
  "InitTest pfx bufferSize dws drain grace s =
     and_then (Init pfx bufferSize dws drain grace s) (\<lambda>s1. Returns (s1\<lparr>test := 1\<rparr>))"

section \<open>The call-site resolver (dtFile)\<close>

text \<open>
  A frame of the goroutine's stack: the full name of its function, the path of its
  source file and the line it is executing.
\<close>

record frame =
  fr_func :: string
  fr_file :: string
  fr_line :: int

text \<open>
  What \<^verbatim>\<open>dtFile\<close> reads from outside the logger: the formatted current time, the
  process id and the stack at the moment it runs, innermost frame first, so that
  \<open>stack e ! 0\<close> is the frame of \<^verbatim>\<open>dtFile\<close> itself. \<open>inner\<close> is what
  \<^verbatim>\<open>runtime.Caller\<close> reports for a negative skip (frames of the runtime), which its
  documentation leaves open. \<open>heap\<close> is the number of pointer-sized slots that the
  allocator can still provide at that moment.
\<close>

record env =
  clock :: string
  getpid :: int
  stack :: "frame list"
  inner :: "int \<Rightarrow> (string \<times> int) option"
  heap :: nat

text \<open>
  Go's \<^verbatim>\<open>int\<close>, and with it \<^verbatim>\<open>type Uplevel int\<close>, on a 64-bit platform:
  \<^verbatim>\<open>+\<close> and \<^verbatim>\<open>-\<close> wrap around and \<open>sint\<close> reads the value.
\<close>

type_synonym goint = "64 word"

text \<open>\<^verbatim>\<open>runtime.Caller(skip)\<close>, skip 0 being the caller of \<^verbatim>\<open>Caller\<close>.\<close>

definition runtime_Caller :: "env \<Rightarrow> int \<Rightarrow> (string \<times> int) option" where
  "runtime_Caller e skip =
     (if skip < 0 then inner e skip
      else if nat skip < length (stack e)
      then Some (fr_file (stack e ! nat skip), fr_line (stack e ! nat skip))
      else None)"

text \<open>
  \<^verbatim>\<open>runtime.Callers(skip, pc)\<close> for a \<open>pc\<close> of \<open>n\<close> slots. Skip 0 is the frame of
  \<^verbatim>\<open>Callers\<close> itself and skip 1 its caller, so slot \<open>j\<close> holds the frame at
  position \<open>skip - 1 + j\<close> of the stack; a slot that is not filled stays 0 (\<open>None\<close>).
\<close>

definition runtime_Callers :: "env \<Rightarrow> int \<Rightarrow> nat \<Rightarrow> frame option list" where
  "runtime_Callers e skip n =
     map (\<lambda>j. let i = skip - 1 + int j
              in if 0 \<le> i \<and> nat i < length (stack e) then Some (stack e ! nat i) else None)
         [0..<n]"

text \<open>\<^verbatim>\<open>runtime.FuncForPC(pc).Name()\<close>: the nil \<^verbatim>\<open>*Func\<close> has the empty name.\<close>

definition Func_Name :: "frame option \<Rightarrow> string" where
  "Func_Name pc = (case pc of None \<Rightarrow> [] | Some f \<Rightarrow> fr_func f)"

text \<open>\<^verbatim>\<open>path.Split\<close>: the directory up to and including the last slash, and the rest.\<close>

definition path_Split :: "string \<Rightarrow> string \<times> string" where
  "path_Split p =
     (let base = rev (takeWhile (\<lambda>c. c \<noteq> CHR ''/'') (rev p))
      in (take (length p - length base) p, base))"

definition test_time :: string where
  "test_time = ''2009/11/10 15:00:00.000''"

text \<open>
  \<^verbatim>\<open>make([]uintptr, len)\<close>, which is \<^verbatim>\<open>runtime.makeslice\<close> for elements of 8
  bytes. It panics when \<open>len\<close> is negative and when \<open>8 * len\<close> exceeds
  \<^verbatim>\<open>maxAlloc\<close> (\<open>2 ^ 48\<close> on a 64-bit platform); when the allocator cannot provide
  the slots the runtime stops the process with the fatal error \<^verbatim>\<open>out of memory\<close>
  (exit status 2); otherwise the slice has \<open>len\<close> slots.
\<close>

definition maxAlloc :: int where
  "maxAlloc = 2 ^ 48"

definition makeslice :: "env \<Rightarrow> int \<Rightarrow> stop + nat" where
  "makeslice e len =
     (if len < 0 \<or> maxAlloc < 8 * len then Inl (Panic ''makeslice: len out of range'')
      else if heap e < nat len then Inl (Exit 2)
      else Inr (nat len))"

text \<open>
  \<^verbatim>\<open>dtFile\<close>. With an empty \<open>function\<close> it allocates \<^verbatim>\<open>calldepth+1\<close> slots, the
  sum wrapping around as Go's \<^verbatim>\<open>int\<close> does, and reads \<^verbatim>\<open>pc[calldepth-1]\<close>, which
  panics on an index out of range.
\<close>

definition dtFile :: "goint \<Rightarrow> string \<Rightarrow> env \<Rightarrow> world \<Rightarrow> stop + (string \<times> string \<times> string \<times> int)" where
  "dtFile calldepth function e s =
     (case (if function = [] then
              (case makeslice e (sint (calldepth + 1)) of
                 Inl p \<Rightarrow> Inl p
               | Inr n \<Rightarrow>
                   (let pc = runtime_Callers e (sint calldepth) n
                    in if sint (calldepth - 1) < 0 \<or> length pc \<le> nat (sint (calldepth - 1))
                       then Inl (Panic ''index out of range'')
                       else Inr (snd (path_Split (Func_Name (pc ! nat (sint (calldepth - 1))))))))
            else Inr function) of
        Inl p \<Rightarrow> Inl p
      | Inr funcName \<Rightarrow>
          if test s = 1 then Inr (test_time, ''file.go#512'', funcName, 69910)
          else (case runtime_Caller e (sint calldepth) of
                  None \<Rightarrow> Inr (clock e, ''unknown.go#0:'', ''missing'', getpid e)
                | Some (filePath, ln) \<Rightarrow>
                    Inr (clock e,
                         Sprintf ''%s#%d'' [Str (snd (path_Split filePath)), Basic (VInt ln)],
                         funcName, getpid e)))"

section \<open>The formatting entry points of Uplevel\<close>

text \<open>
  One constructor for each method of \<^verbatim>\<open>Uplevel\<close>, \<^verbatim>\<open>Logger\<close> and
  \<^verbatim>\<open>UplevelLogger\<close>, with the method's arguments in the order of its signature. A
  formatter is \<open>None\<close> when nil and otherwise the text that its \<^verbatim>\<open>Format\<close> returns.
\<close>

datatype call =
    Start iface string
  | Startf iface string string "iface list"
  | Complete iface string
  | Completef iface string string "iface list"
  | CompleteErr iface iface string
  | CompleteErrf iface iface string string "iface list"
  | Err iface iface string
  | Errf iface iface string string "iface list"
  | ErrFatal iface iface string
  | ErrFatalf iface iface string string "iface list"
  | ErrPanic iface iface string
  | ErrPanicf iface iface string string "iface list"
  | Tracef iface string string "iface list"
  | Warnf iface string string "iface list"
  | Queryf iface string string "iface list"
  | DataKV iface string string iface
  | DataBlock iface string iface
  | DataString iface string string
  | DataTrace iface string "string option list"

text \<open>
  The timing of one call: the outcome of the select of its first and of its second
  \<^verbatim>\<open>output\<close>, and, for the calls that end in \<^verbatim>\<open>Shutdown\<close>, the writer's steps
  before the exit case and the writes that land during the grace sleep.
\<close>

record timing =
  first_select :: select
  second_select :: select
  exit_after :: "wstep list"
  lands_in_grace :: "nat list"

text \<open>\<^verbatim>\<open>dt, file, funcName, pid := dtFile(...)\<close> followed by the rest of the method.\<close>

definition resolved :: "goint \<Rightarrow> string \<Rightarrow> env \<Rightarrow> world \<Rightarrow>
    (string \<Rightarrow> string \<Rightarrow> string \<Rightarrow> int \<Rightarrow> outcome) \<Rightarrow> outcome" where
  "resolved calldepth function e s body =
     (case dtFile calldepth function e s of
        Inl p \<Rightarrow> Stops p s
      | Inr (dt, file, funcName, pid) \<Rightarrow> body dt file funcName pid)"

text \<open>The operands \<^verbatim>\<open>dt, l.prefix, pid, file, context, funcName\<close> of every trace line.\<close>

definition operands :: "string \<Rightarrow> world \<Rightarrow> int \<Rightarrow> string \<Rightarrow> iface \<Rightarrow> string \<Rightarrow> iface list" where
  "operands dt s pid file context funcName =
     [Str dt, Str (prefix s), Basic (VInt pid), Str file, context, Str funcName]"

text \<open>\<^verbatim>\<open>bytes.Split(s, []byte{'\n'})\<close>\<close>

fun bytes_Split :: "string \<Rightarrow> string list" where
  "bytes_Split [] = ['''']"
| "bytes_Split (c # cs) =
     (if c = NL then [] # bytes_Split cs
      else (case bytes_Split cs of [] \<Rightarrow> [c] # [] | l # ls \<Rightarrow> (c # l) # ls))"

text \<open>The loops of \<^verbatim>\<open>DataString\<close> and \<^verbatim>\<open>DataTrace\<close> that skip the empty lines.\<close>

fun tab_lines :: "string list \<Rightarrow> string" where
  "tab_lines [] = []"
| "tab_lines (l # ls) =
     (if length l = 0 then tab_lines ls else Sprintf [TAB, CHR ''%'', CHR ''s'', NL] [Str l] @ tab_lines ls)"

fun formatter_lines :: "string option list \<Rightarrow> string list" where
  "formatter_lines [] = []"
| "formatter_lines (None # fs) = formatter_lines fs"
| "formatter_lines (Some txt # fs) = bytes_Split txt @ formatter_lines fs"

text \<open>\<^verbatim>\<open>json.MarshalIndent(block, "", "    ")\<close> on a value that is not a string.\<close>

fun json_MarshalIndent :: "basic \<Rightarrow> string + string" where
  "json_MarshalIndent VNil = Inr ''null''"
| "json_MarshalIndent (VInt i) = Inr (showInt i)"
| "json_MarshalIndent (VErr e) = Inr ''{}''"
| "json_MarshalIndent (VOther typ txt js) = js"

definition Uplevel_DataString :: "goint \<Rightarrow> iface \<Rightarrow> string \<Rightarrow> string \<Rightarrow> env \<Rightarrow> timing \<Rightarrow> world \<Rightarrow> outcome" where
  "Uplevel_DataString lvl context function message e t s =
     resolved (2 + lvl) function e s (\<lambda>dt file funcName pid.
       if message = [] then
         output (Dev_get DevData s) ''%s: %s[%d]: %s: %v: %s: DATA: %%!ds(MISSING)\<newline>''
           (Some (operands dt s pid file context funcName)) (first_select t) s
       else
         output (Dev_get DevData s)
           (Sprintf ''%s: %s[%d]: %s: %v: %s: DATA:\<newline>''
              (operands dt s pid file context funcName) @ tab_lines (bytes_Split message))
           None (first_select t) s)"

text \<open>
  The fatal and the panic paths: the error line, the \<^verbatim>\<open>TERMINATING\<close> line,
  \<^verbatim>\<open>Shutdown()\<close>, and the process stops.
\<close>

definition terminating :: "8 word \<Rightarrow> string \<Rightarrow> iface list \<Rightarrow> iface list \<Rightarrow> stop \<Rightarrow> timing \<Rightarrow> world \<Rightarrow> outcome" where
  "terminating d format a ops halt t s =
     and_then (output (Dev_get d s) format (Some a) (first_select t) s) (\<lambda>s1.
     and_then (output (Dev_get d s1) ''%s: %s[%d]: %s: %v: %s: TERMINATING\<newline>''
                 (Some ops) (second_select t) s1) (\<lambda>s2.
     and_then (Shutdown (exit_after t) (lands_in_grace t) s2) (\<lambda>s3. Stops halt s3)))"

fun Uplevel_call :: "goint \<Rightarrow> call \<Rightarrow> env \<Rightarrow> timing \<Rightarrow> world \<Rightarrow> outcome" where
  "Uplevel_call lvl (Start context function) e t s =
     resolved (2 + lvl) function e s (\<lambda>dt file funcName pid.
       output (Dev_get DevStart s) ''%s: %s[%d]: %s: %v: %s: Started:\<newline>''
         (Some (operands dt s pid file context funcName)) (first_select t) s)"
| "Uplevel_call lvl (Startf context function format a) e t s =
     resolved (2 + lvl) function e s (\<lambda>dt file funcName pid.
       output (Dev_get DevStart s) ''%s: %s[%d]: %s: %v: %s: Started: %s''
         (Some (operands dt s pid file context funcName @ [Str (Sprintf format a)]))
         (first_select t) s)"
| "Uplevel_call lvl (Complete context function) e t s =
     resolved (2 + lvl) function e s (\<lambda>dt file funcName pid.
       output (Dev_get DevStart s) ''%s: %s[%d]: %s: %v: %s: Completed:\<newline>''
         (Some (operands dt s pid file context funcName)) (first_select t) s)"
| "Uplevel_call lvl (Completef context function format a) e t s =
     resolved (2 + lvl) function e s (\<lambda>dt file funcName pid.
       output (Dev_get DevStart s) ''%s: %s[%d]: %s: %v: %s: Completed: %s''
         (Some (operands dt s pid file context funcName @ [Str (Sprintf format a)]))
         (first_select t) s)"
| "Uplevel_call lvl (CompleteErr err context function) e t s =
     resolved (2 + lvl) function e s (\<lambda>dt file funcName pid.
       output (Dev_get DevError s) ''%s: %s[%d]: %s: %v: %s: Completed ERROR: %s''
         (Some (operands dt s pid file context funcName @ [err])) (first_select t) s)"
| "Uplevel_call lvl (CompleteErrf err context function format a) e t s =
     resolved (2 + lvl) function e s (\<lambda>dt file funcName pid.
       output (Dev_get DevError s) ''%s: %s[%d]: %s: %v: %s: Completed ERROR: %s: %s''
         (Some (operands dt s pid file context funcName @ [Str (Sprintf format a), err]))
         (first_select t) s)"
| "Uplevel_call lvl (Err err context function) e t s =
     resolved (2 + lvl) function e s (\<lambda>dt file funcName pid.
       output (Dev_get DevError s) ''%s: %s[%d]: %s: %v: %s: ERROR: %s''
         (Some (operands dt s pid file context funcName @ [err])) (first_select t) s)"
| "Uplevel_call lvl (Errf err context function format a) e t s =
     resolved (2 + lvl) function e s (\<lambda>dt file funcName pid.
       output (Dev_get DevError s) ''%s: %s[%d]: %s: %v: %s: ERROR: %s: %s''
         (Some (operands dt s pid file context funcName @ [Str (Sprintf format a), err]))
         (first_select t) s)"
| "Uplevel_call lvl (ErrFatal err context function) e t s =
     resolved (2 + lvl) function e s (\<lambda>dt file funcName pid.
       terminating DevError ''%s: %s[%d]: %s: %v: %s: ERROR: %s''
         (operands dt s pid file context funcName @ [err])
         (operands dt s pid file context funcName) (Exit 1) t s)"
| "Uplevel_call lvl (ErrFatalf err context function format a) e t s =
     resolved (2 + lvl) function e s (\<lambda>dt file funcName pid.
       terminating DevError ''%s: %s[%d]: %s: %v: %s: ERROR: %s: %s''
         (operands dt s pid file context funcName @ [Str (Sprintf format a), err])
         (operands dt s pid file context funcName) (Exit 1) t s)"
| "Uplevel_call lvl (ErrPanic err context function) e t s =
     resolved (2 + lvl) function e s (\<lambda>dt file funcName pid.
       terminating DevPanic ''%s: %s[%d]: %s: %v: %s: ERROR: %s''
         (operands dt s pid file context funcName @ [err])
         (operands dt s pid file context funcName) (Panic ''Terminating Program'') t s)"
| "Uplevel_call lvl (ErrPanicf err context function format a) e t s =
     resolved (2 + lvl) function e s (\<lambda>dt file funcName pid.
       terminating DevPanic ''%s: %s[%d]: %s: %v: %s: ERROR: %s: %s''
         (operands dt s pid file context funcName @ [Str (Sprintf format a), err])
         (operands dt s pid file context funcName) (Panic ''Terminating Program'') t s)"
| "Uplevel_call lvl (Tracef context function format a) e t s =
     resolved (2 + lvl) function e s (\<lambda>dt file funcName pid.
       output (Dev_get DevTrace s) ''%s: %s[%d]: %s: %v: %s: Trace: %s''
         (Some (operands dt s pid file context funcName @ [Str (Sprintf format a)]))
         (first_select t) s)"
| "Uplevel_call lvl (Warnf context function format a) e t s =
     resolved (2 + lvl) function e s (\<lambda>dt file funcName pid.
       output (Dev_get DevWarning s) ''%s: %s[%d]: %s: %v: %s: Warning: %s''
         (Some (operands dt s pid file context funcName @ [Str (Sprintf format a)]))
         (first_select t) s)"
| "Uplevel_call lvl (Queryf context function format a) e t s =
     resolved (2 + lvl) function e s (\<lambda>dt file funcName pid.
       output (Dev_get DevQuery s) ''%s: %s[%d]: %s: %v: %s: Query: %s''
         (Some (operands dt s pid file context funcName @ [Str (Sprintf format a)]))
         (first_select t) s)"
| "Uplevel_call lvl (DataKV context function key val) e t s =
     resolved (2 + lvl) function e s (\<lambda>dt file funcName pid.
       output (Dev_get DevData s) ''%s: %s[%d]: %s: %v: %s: DATA: %s: %v''
         (Some (operands dt s pid file context funcName @ [Str key, val])) (first_select t) s)"
| "Uplevel_call lvl (DataBlock context function block) e t s =
     (case block of
        Str v \<Rightarrow> Uplevel_DataString (lvl + 1) context function v e t s
      | Basic x \<Rightarrow>
          (case json_MarshalIndent x of
             Inl err \<Rightarrow> Uplevel_DataString (lvl + 1) context function err e t s
           | Inr d \<Rightarrow> Uplevel_DataString (lvl + 1) context function d e t s))"
| "Uplevel_call lvl (DataString context function message) e t s =
     Uplevel_DataString lvl context function message e t s"
| "Uplevel_call lvl (DataTrace context function formatters) e t s =
     resolved (2 + lvl) function e s (\<lambda>dt file funcName pid.
       (let message = Sprintf ''%s: %s[%d]: %s: %v: %s: DATA:\<newline>''
                        (operands dt s pid file context funcName)
                      @ tab_lines (formatter_lines formatters)
        in if message = []
           then output (Dev_get DevData s) [TAB, CHR ''%'', CHR ''%'', CHR ''!'', CHR ''d'',
                  CHR ''s'', CHR ''('', CHR ''M'', CHR ''I'', CHR ''S'', CHR ''S'', CHR ''I'',
                  CHR ''N'', CHR ''G'', CHR '')'', NL] None (first_select t) s
           else output (Dev_get DevData s) message None (first_select t) s))"

text \<open>\<^verbatim>\<open>var Up1 Uplevel = 1\<close> and the package-level functions of \<^verbatim>\<open>log_calls.go\<close>.\<close>

definition Up1 :: goint where "Up1 = 1"

definition log_call :: "call \<Rightarrow> env \<Rightarrow> timing \<Rightarrow> world \<Rightarrow> outcome" where
  "log_call c e t s = Uplevel_call Up1 c e t s"

section \<open>Loggers with a level (logger.go) and their uplevel proxies\<close>

definition LevelOff :: int where "LevelOff = 0"
definition LevelError :: int where "LevelError = 1"
definition LevelWarning :: int where "LevelWarning = 2"
definition LevelOutput :: int where "LevelOutput = 3"
definition LevelTrace :: int where "LevelTrace = 4"

text \<open>
  \<^verbatim>\<open>level func() int\<close> is evaluated at every call; what it returns may depend on
  anything the closure reads, which is the argument of type \<open>'x\<close>. An
  \<^verbatim>\<open>UplevelLogger\<close> uses its pointer \<^verbatim>\<open>l\<close> only to call \<^verbatim>\<open>l.level()\<close>, so
  the model keeps that accessor in its place.
\<close>

record 'x UplevelLogger =
  ul_level :: "'x \<Rightarrow> int"
  ul_up :: goint

record 'x Logger =
  lg_Up1 :: "'x UplevelLogger"
  lg_name :: string
  lg_level :: "'x \<Rightarrow> int"

definition NewLogger :: "string \<Rightarrow> ('x \<Rightarrow> int) \<Rightarrow> 'x Logger" where
  "NewLogger name level =
     \<lparr>lg_Up1 = \<lparr>ul_level = level, ul_up = 2\<rparr>, lg_name = name, lg_level = level\<rparr>"

fun Logger_call :: "'x Logger \<Rightarrow> call \<Rightarrow> 'x \<Rightarrow> env \<Rightarrow> timing \<Rightarrow> world \<Rightarrow> outcome" where
  "Logger_call l (Start context function) x e t s =
     (if lg_level l x \<ge> LevelTrace then Uplevel_call Up1 (Start context function) e t s else Returns s)"
| "Logger_call l (Startf context function format a) x e t s =
     (if lg_level l x \<ge> LevelTrace then Uplevel_call Up1 (Startf context function format a) e t s else Returns s)"
| "Logger_call l (Complete context function) x e t s =
     (if lg_level l x \<ge> LevelTrace then Uplevel_call Up1 (Complete context function) e t s else Returns s)"
| "Logger_call l (Completef context function format a) x e t s =
     (if lg_level l x \<ge> LevelTrace then Uplevel_call Up1 (Completef context function format a) e t s else Returns s)"
| "Logger_call l (CompleteErr err context function) x e t s =
     (if lg_level l x \<ge> LevelError then Uplevel_call Up1 (CompleteErr err context function) e t s else Returns s)"
| "Logger_call l (CompleteErrf err context function format a) x e t s =
     (if lg_level l x \<ge> LevelError then Uplevel_call Up1 (CompleteErrf err context function format a) e t s else Returns s)"
| "Logger_call l (Err err context function) x e t s =
     (if lg_level l x \<ge> LevelError then Uplevel_call Up1 (Err err context function) e t s else Returns s)"
| "Logger_call l (Errf err context function format a) x e t s =
     (if lg_level l x \<ge> LevelError then Uplevel_call Up1 (Errf err context function format a) e t s else Returns s)"
| "Logger_call l (ErrFatal err context function) x e t s =
     (if lg_level l x \<ge> LevelError then Uplevel_call Up1 (ErrFatal err context function) e t s else Returns s)"
| "Logger_call l (ErrFatalf err context function format a) x e t s =
     (if lg_level l x \<ge> LevelError then Uplevel_call Up1 (ErrFatalf err context function format a) e t s else Returns s)"
| "Logger_call l (ErrPanic err context function) x e t s =
     (if lg_level l x \<ge> LevelError then Uplevel_call Up1 (ErrPanic err context function) e t s else Returns s)"
| "Logger_call l (ErrPanicf err context function format a) x e t s =
     (if lg_level l x \<ge> LevelError then Uplevel_call Up1 (ErrPanicf err context function format a) e t s else Returns s)"
| "Logger_call l (Tracef context function format a) x e t s =
     (if lg_level l x \<ge> LevelTrace then Uplevel_call Up1 (Tracef context function format a) e t s else Returns s)"
| "Logger_call l (Warnf context function format a) x e t s =
     (if lg_level l x \<ge> LevelWarning then Uplevel_call Up1 (Warnf context function format a) e t s else Returns s)"
| "Logger_call l (Queryf context function format a) x e t s =
     (if lg_level l x \<ge> LevelTrace then Uplevel_call Up1 (Queryf context function format a) e t s else Returns s)"
| "Logger_call l (DataKV context function key val) x e t s =
     (if lg_level l x \<ge> LevelOutput then Uplevel_call Up1 (DataKV context function key val) e t s else Returns s)"
| "Logger_call l (DataBlock context function block) x e t s =
     (if lg_level l x \<ge> LevelOutput then Uplevel_call Up1 (DataBlock context function block) e t s else Returns s)"
| "Logger_call l (DataString context function message) x e t s =
     (if lg_level l x \<ge> LevelOutput then Uplevel_call Up1 (DataString context function message) e t s else Returns s)"
| "Logger_call l (DataTrace context function formatters) x e t s =
     (if lg_level l x \<ge> LevelOutput then Uplevel_call Up1 (DataTrace context function formatters) e t s else Returns s)"

fun UplevelLogger_call :: "'x UplevelLogger \<Rightarrow> call \<Rightarrow> 'x \<Rightarrow> env \<Rightarrow> timing \<Rightarrow> world \<Rightarrow> outcome" where
  "UplevelLogger_call lvl (Start context function) x e t s =
     (if ul_level lvl x \<ge> LevelTrace then Uplevel_call (ul_up lvl) (Start context function) e t s else Returns s)"
| "UplevelLogger_call lvl (Startf context function format a) x e t s =
     (if ul_level lvl x \<ge> LevelTrace then Uplevel_call (ul_up lvl) (Startf context function format a) e t s else Returns s)"
| "UplevelLogger_call lvl (Complete context function) x e t s =
     (if ul_level lvl x \<ge> LevelTrace then Uplevel_call (ul_up lvl) (Complete context function) e t s else Returns s)"
| "UplevelLogger_call lvl (Completef context function format a) x e t s =
     (if ul_level lvl x \<ge> LevelTrace then Uplevel_call (ul_up lvl) (Completef context function format a) e t s else Returns s)"
| "UplevelLogger_call lvl (CompleteErr err context function) x e t s =
     (if ul_level lvl x \<ge> LevelError then Uplevel_call (ul_up lvl) (CompleteErr err context function) e t s else Returns s)"
| "UplevelLogger_call lvl (CompleteErrf err context function format a) x e t s =
     (if ul_level lvl x \<ge> LevelError then Uplevel_call (ul_up lvl) (CompleteErrf err context function format a) e t s else Returns s)"
| "UplevelLogger_call lvl (Err err context function) x e t s =
     (if ul_level lvl x \<ge> LevelError then Uplevel_call (ul_up lvl) (Err err context function) e t s else Returns s)"
| "UplevelLogger_call lvl (Errf err context function format a) x e t s =
     (if ul_level lvl x \<ge> LevelError then Uplevel_call (ul_up lvl) (Errf err context function format a) e t s else Returns s)"
| "UplevelLogger_call lvl (ErrFatal err context function) x e t s =
     (if ul_level lvl x \<ge> LevelError then Uplevel_call (ul_up lvl) (ErrFatal err context function) e t s else Returns s)"
| "UplevelLogger_call lvl (ErrFatalf err context function format a) x e t s =
     (if ul_level lvl x \<ge> LevelError then Uplevel_call (ul_up lvl) (ErrFatalf err context function format a) e t s else Returns s)"
| "UplevelLogger_call lvl (ErrPanic err context function) x e t s =
     (if ul_level lvl x \<ge> LevelError then Uplevel_call (ul_up lvl) (ErrPanic err context function) e t s else Returns s)"
| "UplevelLogger_call lvl (ErrPanicf err context function format a) x e t s =
     (if ul_level lvl x \<ge> LevelError then Uplevel_call (ul_up lvl) (ErrPanicf err context function format a) e t s else Returns s)"
| "UplevelLogger_call lvl (Tracef context function format a) x e t s =
     (if ul_level lvl x \<ge> LevelTrace then Uplevel_call (ul_up lvl) (Tracef context function format a) e t s else Returns s)"
| "UplevelLogger_call lvl (Warnf context function format a) x e t s =
     (if ul_level lvl x \<ge> LevelWarning then Uplevel_call (ul_up lvl) (Warnf context function format a) e t s else Returns s)"
| "UplevelLogger_call lvl (Queryf context function format a) x e t s =
     (if ul_level lvl x \<ge> LevelTrace then Uplevel_call (ul_up lvl) (Queryf context function format a) e t s else Returns s)"
| "UplevelLogger_call lvl (DataKV context function key val) x e t s =
     (if ul_level lvl x \<ge> LevelOutput then Uplevel_call (ul_up lvl) (DataKV context function key val) e t s else Returns s)"
| "UplevelLogger_call lvl (DataBlock context function block) x e t s =
     (if ul_level lvl x \<ge> LevelOutput then Uplevel_call (ul_up lvl) (DataBlock context function block) e t s else Returns s)"
| "UplevelLogger_call lvl (DataString context function message) x e t s =
     (if ul_level lvl x \<ge> LevelOutput then Uplevel_call (ul_up lvl) (DataString context function message) e t s else Returns s)"
| "UplevelLogger_call lvl (DataTrace context function formatters) x e t s =
     (if ul_level lvl x \<ge> LevelOutput then Uplevel_call (ul_up lvl) (DataTrace context function formatters) e t s else Returns s)"

section \<open>The statements of the specification\<close>

text \<open>
  The registry as the specification describes it: the eight concrete categories, the
  default bindings, \<open>bindAll\<close>, one override, and the overrides applied to the
  defaults in listed order.
\<close>

definition concrete :: "8 word set" where
  "concrete = {DevStart, DevError, DevPanic, DevTrace, DevWarning, DevQuery, DevData, DevSplunk}"

definition spec_defaults :: "8 word \<rightharpoonup> Writer" where
  "spec_defaults d =
     (if d \<in> {DevError, DevPanic, DevWarning} then Some os_Stderr
      else if d \<in> {DevStart, DevTrace, DevQuery, DevData, DevSplunk} then Some os_Stdout
      else None)"

definition spec_bindAll :: "Writer \<Rightarrow> (8 word \<rightharpoonup> Writer) \<Rightarrow> (8 word \<rightharpoonup> Writer)" where
  "spec_bindAll w m = (\<lambda>d. if d \<in> concrete then Some w else m d)"

definition spec_override :: "(8 word \<rightharpoonup> Writer) \<Rightarrow> DevWriter \<Rightarrow> (8 word \<rightharpoonup> Writer)" where
  "spec_override m dw =
     (if Device dw = DevAll then spec_bindAll (Writer dw) m else m(Device dw \<mapsto> Writer dw))"

definition spec_registry :: "DevWriter list \<Rightarrow> (8 word \<rightharpoonup> Writer)" where
  "spec_registry dws = foldl spec_override spec_defaults dws"

text \<open>The minimum level of each call family as the specification lists them.\<close>

fun spec_min_level :: "call \<Rightarrow> int" where
  "spec_min_level (CompleteErr err c f) = 1"
| "spec_min_level (CompleteErrf err c f fm a) = 1"
| "spec_min_level (Err err c f) = 1"
| "spec_min_level (Errf err c f fm a) = 1"
| "spec_min_level (ErrFatal err c f) = 1"
| "spec_min_level (ErrFatalf err c f fm a) = 1"
| "spec_min_level (ErrPanic err c f) = 1"
| "spec_min_level (ErrPanicf err c f fm a) = 1"
| "spec_min_level (Warnf c f fm a) = 2"
| "spec_min_level (DataKV c f k v) = 3"
| "spec_min_level (DataBlock c f b) = 3"
| "spec_min_level (DataString c f m) = 3"
| "spec_min_level (DataTrace c f fs) = 3"
| "spec_min_level (Start c f) = 4"
| "spec_min_level (Startf c f fm a) = 4"
| "spec_min_level (Complete c f) = 4"
| "spec_min_level (Completef c f fm a) = 4"
| "spec_min_level (Tracef c f fm a) = 4"
| "spec_min_level (Queryf c f fm a) = 4"

text \<open>
  The bytes addressed to sink \<open>k\<close> in a list of writes and in a list of lines, and
  the bytes that the writer has taken charge of for \<open>k\<close>: those it has handed to a
  write and those in its bulk buffer.
\<close>

definition bytes_for :: "nat \<Rightarrow> (nat \<times> string) list \<Rightarrow> string" where
  "bytes_for k al = concat (map snd (filter (\<lambda>e. fst e = k) al))"

definition chan_bytes :: "nat \<Rightarrow> line list \<Rightarrow> string" where
  "chan_bytes k lns = concat (map snd (filter (\<lambda>ln. fst ln = Some k) lns))"

definition handed :: "nat \<Rightarrow> world \<Rightarrow> string" where
  "handed k s = bytes_for k (spawned s) @ bytes_for k (bulkLines s)"

section \<open>Concrete runs\<close>

text \<open>
  A logger initialised with prefix LOG, a channel of capacity 1 and every category bound
  to sink 7; the same with a line waiting in the channel; and the disabled logger with
  one pending write and with none.
\<close>

definition ex_live :: world where
  "ex_live = final (Init ''LOG'' 1 [\<lparr>Device = DevAll, Writer = Some 7\<rparr>] [] [] l0)"

definition ex_queued :: world where
  "ex_queued = final (output (Some 7) ''x'' None SendWins ex_live)"

definition ex_off_pending :: world where
  "ex_off_pending = ex_queued\<lparr>loggingOff := True\<rparr>"

definition ex_off_idle :: world where
  "ex_off_idle = ex_live\<lparr>loggingOff := True\<rparr>"

text \<open>
  Stacks at the moment \<^verbatim>\<open>dtFile\<close> runs. A helper \<^verbatim>\<open>main.handleErr\<close> is called on
  line 13 of \<^verbatim>\<open>main.someFunc\<close>, which \<^verbatim>\<open>main.main\<close> calls on line 20. In
  \<open>ex_proxy\<close> the helper logs through the proxy of a Logger on its line 6; in
  \<open>ex_direct\<close> \<^verbatim>\<open>main.someFunc\<close> itself logs through the Logger on line 13.
\<close>

definition lib_frame :: "string \<Rightarrow> string \<Rightarrow> int \<Rightarrow> frame" where
  "lib_frame func file ln =
     \<lparr>fr_func = ''github.com/Comcast/go-log/log.'' @ func,
      fr_file = ''/go/src/github.com/Comcast/go-log/log/'' @ file, fr_line = ln\<rparr>"

definition user_frames :: "frame list" where
  "user_frames =
     [\<lparr>fr_func = ''main.someFunc'', fr_file = ''/home/u/main.go'', fr_line = 13\<rparr>,
      \<lparr>fr_func = ''main.main'', fr_file = ''/home/u/main.go'', fr_line = 20\<rparr>,
      \<lparr>fr_func = ''runtime.main'', fr_file = ''/usr/go/src/runtime/proc.go'', fr_line = 250\<rparr>]"

definition ex_direct :: env where
  "ex_direct =
     \<lparr>clock = ''T'', getpid = 42,
      stack = [lib_frame ''dtFile'' ''log.go'' 211,
               lib_frame ''Uplevel.Tracef'' ''uplevel.go'' 170,
               lib_frame ''(*Logger).Tracef'' ''logger.go'' 152] @ user_frames,
      inner = (\<lambda>i. None), heap = 4096\<rparr>"

definition ex_proxy :: env where
  "ex_proxy =
     \<lparr>clock = ''T'', getpid = 42,
      stack = [lib_frame ''dtFile'' ''log.go'' 211,
               lib_frame ''Uplevel.Tracef'' ''uplevel.go'' 170,
               lib_frame ''UplevelLogger.Tracef'' ''uplevel_logger.go'' 128,
               \<lparr>fr_func = ''main.handleErr'', fr_file = ''/home/u/main.go'', fr_line = 6\<rparr>]
              @ user_frames,
      inner = (\<lambda>i. None), heap = 4096\<rparr>"

text \<open>
  On line 13 of \<^verbatim>\<open>main.someFunc\<close>, without a Logger: in \<open>ex_uplevel\<close> a call of
  \<^verbatim>\<open>Tracef\<close> on an \<^verbatim>\<open>Uplevel\<close> value, in \<open>ex_DataString\<close> the call
  \<^verbatim>\<open>log.DataString\<close>, and in \<open>ex_DataBlock\<close> the call \<^verbatim>\<open>log.DataBlock\<close>, which reaches
  \<^verbatim>\<open>dtFile\<close> through \<^verbatim>\<open>Uplevel.DataBlock\<close> and \<^verbatim>\<open>Uplevel.DataString\<close>.
\<close>

definition ex_uplevel :: env where
  "ex_uplevel =
     \<lparr>clock = ''T'', getpid = 42,
      stack = [lib_frame ''dtFile'' ''log.go'' 211,
               lib_frame ''Uplevel.Tracef'' ''uplevel.go'' 170] @ user_frames,
      inner = (\<lambda>i. None), heap = 4096\<rparr>"

definition ex_DataString :: env where
  "ex_DataString =
     \<lparr>clock = ''T'', getpid = 42,
      stack = [lib_frame ''dtFile'' ''log.go'' 211,
               lib_frame ''Uplevel.DataString'' ''uplevel.go'' 208,
               lib_frame ''DataString'' ''log_calls.go'' 106] @ user_frames,
      inner = (\<lambda>i. None), heap = 4096\<rparr>"

definition ex_DataBlock :: env where
  "ex_DataBlock =
     \<lparr>clock = ''T'', getpid = 42,
      stack = [lib_frame ''dtFile'' ''log.go'' 211,
               lib_frame ''Uplevel.DataString'' ''uplevel.go'' 208,
               lib_frame ''Uplevel.DataBlock'' ''uplevel.go'' 195,
               lib_frame ''DataBlock'' ''log_calls.go'' 101] @ user_frames,
      inner = (\<lambda>i. None), heap = 4096\<rparr>"

definition ex_timing :: timing where
  "ex_timing = \<lparr>first_select = SendWins, second_select = SendWins,
                 exit_after = [Recv, Recv], lands_in_grace = [0]\<rparr>"

definition ex_logger :: "unit Logger" where
  "ex_logger = NewLogger ''warn'' (\<lambda>u. LevelWarning)"

definition ex_tracer :: "unit Logger" where
  "ex_tracer = NewLogger ''trace'' (\<lambda>u. LevelTrace)"

definition ex_NaN :: basic where
  "ex_NaN = VOther ''float64'' ''NaN'' (Inl ''json: unsupported value: NaN'')"

section \<open>Facts about the concrete runs\<close>

lemmas Dev_defs = DevAll_def DevStart_def DevError_def DevPanic_def DevTrace_def
  DevWarning_def DevQuery_def DevData_def DevSplunk_def

lemma Init_ex_live:
  "Init ''LOG'' 1 [\<lparr>Device = DevAll, Writer = Some 7\<rparr>] [] [] l0 = Returns ex_live"
  by (simp add: ex_live_def Init_def and_then_def l0_def Dev_All_def)

lemma ex_live_fields:
  "write ex_live = Some \<lparr>buf = [], cap = 1, closed = False\<rparr>"
  "shutdown ex_live = False" "loggingOff ex_live = False" "pendingWrites ex_live = 0"
  "bulkLines ex_live = []" "spawned ex_live = []" "landed ex_live = []"
  "content ex_live = (\<lambda>k. [])" "prefix ex_live = ''LOG''" "test ex_live = 0"
  by (simp_all add: ex_live_def Init_def and_then_def l0_def Dev_All_def)

lemma ex_live_Dev_get:
  "Dev_get DevStart ex_live = Some 7" "Dev_get DevError ex_live = Some 7"
  "Dev_get DevPanic ex_live = Some 7" "Dev_get DevTrace ex_live = Some 7"
  "Dev_get DevWarning ex_live = Some 7" "Dev_get DevQuery ex_live = Some 7"
  "Dev_get DevData ex_live = Some 7" "Dev_get DevSplunk ex_live = Some 7"
  by (simp_all add: ex_live_def Init_def and_then_def l0_def Dev_All_def Dev_get_def Dev_defs)

lemma ex_queued_eq:
  "ex_queued = ex_live\<lparr>write := Some \<lparr>buf = [(Some 7, ''x\<newline>'')], cap = 1, closed = False\<rparr>,
                        pendingWrites := 1\<rparr>"
  by (simp add: ex_queued_def output_def payload_def rendered_def locked_def enqueue_def
        ex_live_fields)

section \<open>The dispatcher\<close>

lemma content_received: "content (received ln s) = content s"
  by (simp add: received_def)

lemma content_safeWrite_recv: "content (safeWrite_recv s) = content s"
  by (simp add: safeWrite_recv_def content_received split: option.splits list.splits)

lemma content_enqueue: "content (final (enqueue ln sel s)) = content s"
  by (simp add: enqueue_def Let_def content_safeWrite_recv split: option.splits select.splits)

lemma spawned_received: "spawned (received ln s) = spawned s"
  by (simp add: received_def)

lemma spawned_safeWrite_recv: "spawned (safeWrite_recv s) = spawned s"
  by (simp add: safeWrite_recv_def spawned_received split: option.splits list.splits)

lemma spawned_enqueue: "spawned (final (enqueue ln sel s)) = spawned s"
  by (simp add: enqueue_def Let_def spawned_safeWrite_recv split: option.splits select.splits)

text \<open>
  C1. While the disabled flag is set and \<open>pendingWrites\<close> is positive, a call of
  \<^verbatim>\<open>output\<close> leaves the whole state as it is: nothing is queued and nothing is
  written, and the call returns (whenever its text is not empty). The call that finds
  the flag set and the counter at 0 clears the flag, writes the line
  \<open>LoggingWasOff\<close> straight to the content of the target sink, not through the
  channel or a spawned write, and then makes the normal enqueue attempt for its line.
\<close>

theorem output_disabled_gate:
  "loggingOff s \<Longrightarrow>
     (0 < sint (pendingWrites s) \<longrightarrow>
        final (output w format a sel s) = s \<and>
        (rendered format a \<noteq> [] \<longrightarrow> output w format a sel s = Returns s)) \<and>
     (\<not> shutdown s \<and> pendingWrites s = 0 \<and> w = Some k \<and> payload (rendered format a) = Inr b \<longrightarrow>
        output w format a sel s =
          enqueue (Some k, b) sel
            (s\<lparr>loggingOff := False,
               content := (content s)(k := content s k @ LoggingWasOff)\<rparr>) \<and>
        content (final (output w format a sel s)) k = content s k @ LoggingWasOff \<and>
        spawned (final (output w format a sel s)) = spawned s)"
  by (auto simp add: output_def locked_def payload_def Fprintf_def content_enqueue spawned_enqueue
           split: option.splits sum.splits if_splits)

text \<open>
  A disabled logger with one pending write drops the line \<open>hi\<close>; a disabled logger
  with none writes the warning to sink 7 and queues the line.
\<close>

theorem output_disabled_gate_witness:
  "loggingOff ex_off_pending \<and> 0 < sint (pendingWrites ex_off_pending) \<and>
   output (Some 7) ''hi'' None SendWins ex_off_pending = Returns ex_off_pending \<and>
   loggingOff ex_off_idle \<and> \<not> shutdown ex_off_idle \<and> pendingWrites ex_off_idle = 0 \<and>
   content (final (output (Some 7) ''hi'' None SendWins ex_off_idle)) 7 = LoggingWasOff \<and>
   write (final (output (Some 7) ''hi'' None SendWins ex_off_idle)) =
     Some \<lparr>buf = [(Some 7, ''hi\<newline>'')], cap = 1, closed = False\<rparr>"
proof -
  have p: "loggingOff ex_off_pending" "0 < sint (pendingWrites ex_off_pending)"
    by (simp_all add: ex_off_pending_def ex_queued_eq)
  have i: "loggingOff ex_off_idle" "\<not> shutdown ex_off_idle" "pendingWrites ex_off_idle = 0"
    by (simp_all add: ex_off_idle_def ex_live_fields)
  have r: "rendered ''hi'' None = ''hi''" "payload ''hi'' = Inr ''hi\<newline>''"
    by (simp_all add: rendered_def payload_def)
  from output_disabled_gate [OF p(1), where w = "Some 7" and format = "''hi''" and a = None
         and sel = SendWins] p(2) r
  have 1: "output (Some 7) ''hi'' None SendWins ex_off_pending = Returns ex_off_pending"
    by simp
  from output_disabled_gate [OF i(1), where w = "Some 7" and k = 7 and format = "''hi''"
         and a = None and b = "''hi\<newline>''" and sel = SendWins] i r
  have 2: "output (Some 7) ''hi'' None SendWins ex_off_idle =
             enqueue (Some 7, ''hi\<newline>'') SendWins
               (ex_off_idle\<lparr>loggingOff := False,
                  content := (content ex_off_idle)(7 := content ex_off_idle 7 @ LoggingWasOff)\<rparr>)"
    by simp
  show ?thesis
    using p i 1 unfolding 2
    by (simp add: enqueue_def ex_off_idle_def ex_live_fields)
qed

text \<open>
  A call with a nil writer has no effect. An empty format is replaced by
  \<open>emptyMessage\<close>. When the rendered text is not empty, the payload of the enqueue
  attempt is the rendered text, with one newline appended when it does not end in one
  and unchanged when it does; on an enabled logger with room in its open channel that
  payload is the line appended to the channel.
\<close>

lemma output_payload:
  "output None format a sel s = Returns s \<and>
   rendered [] a = emptyMessage \<and>
   (rendered format a \<noteq> [] \<longrightarrow>
      output (Some k) format a sel s =
        locked k (if last (rendered format a) = NL then rendered format a
                  else rendered format a @ [NL]) sel s) \<and>
   (\<not> shutdown s \<and> \<not> loggingOff s \<and> write s = Some ch \<and> \<not> closed ch \<and>
    length (buf ch) < cap ch \<longrightarrow>
      locked k b SendWins s =
        Returns (s\<lparr>write := Some (ch\<lparr>buf := buf ch @ [(Some k, b)]\<rparr>),
                   pendingWrites := pendingWrites s + 1\<rparr>))"
proof (intro conjI impI)
  show "output None format a sel s = Returns s"
    by (simp add: output_def)
  show "rendered [] a = emptyMessage"
    by (simp add: rendered_def)
  show "output (Some k) format a sel s =
          locked k (if last (rendered format a) = NL then rendered format a
                    else rendered format a @ [NL]) sel s"
    if "rendered format a \<noteq> []"
    using that by (simp add: output_def payload_def)
  show "locked k b SendWins s =
          Returns (s\<lparr>write := Some (ch\<lparr>buf := buf ch @ [(Some k, b)]\<rparr>),
                     pendingWrites := pendingWrites s + 1\<rparr>)"
    if "\<not> shutdown s \<and> \<not> loggingOff s \<and> write s = Some ch \<and> \<not> closed ch \<and>
        length (buf ch) < cap ch"
    using that by (simp add: locked_def enqueue_def)
qed

text \<open>
  On the live logger: a text without a newline gets one, a text with a newline keeps
  it, and the empty format queues the sentinel.
\<close>

lemma output_payload_example:
  "write (final (output (Some 7) ''a%d'' (Some [Basic (VInt 5)]) SendWins ex_live)) =
     Some \<lparr>buf = [(Some 7, ''a5\<newline>'')], cap = 1, closed = False\<rparr> \<and>
   write (final (output (Some 7) ''a\<newline>'' None SendWins ex_live)) =
     Some \<lparr>buf = [(Some 7, ''a\<newline>'')], cap = 1, closed = False\<rparr> \<and>
   write (final (output (Some 7) [] None SendWins ex_live)) =
     Some \<lparr>buf = [(Some 7, emptyMessage)], cap = 1, closed = False\<rparr>"
proof -
  have r: "rendered ''a%d'' (Some [Basic (VInt 5)]) = ''a5''" "rendered ''a\<newline>'' None = ''a\<newline>''"
    "rendered [] None = emptyMessage"
    by (simp_all add: rendered_def fmtArg_def showInt_def showNat.simps digit_def)
  have e: "emptyMessage \<noteq> []" "last emptyMessage = NL"
    by (simp_all add: emptyMessage_def)
  note live = ex_live_fields(1-3)
  from output_payload [where format = "''a%d''" and a = "Some [Basic (VInt 5)]" and sel = SendWins
         and s = ex_live and k = 7 and ch = "\<lparr>buf = [], cap = 1, closed = False\<rparr>"
         and b = "''a5\<newline>''"]
  have 1: "write (final (output (Some 7) ''a%d'' (Some [Basic (VInt 5)]) SendWins ex_live)) =
             Some \<lparr>buf = [(Some 7, ''a5\<newline>'')], cap = 1, closed = False\<rparr>"
    by (simp add: r live)
  from output_payload [where format = "''a\<newline>''" and a = None and sel = SendWins
         and s = ex_live and k = 7 and ch = "\<lparr>buf = [], cap = 1, closed = False\<rparr>"
         and b = "''a\<newline>''"]
  have 2: "write (final (output (Some 7) ''a\<newline>'' None SendWins ex_live)) =
             Some \<lparr>buf = [(Some 7, ''a\<newline>'')], cap = 1, closed = False\<rparr>"
    by (simp add: r live)
  from output_payload [where format = "[]" and a = None and sel = SendWins
         and s = ex_live and k = 7 and ch = "\<lparr>buf = [], cap = 1, closed = False\<rparr>"
         and b = emptyMessage]
  have 3: "write (final (output (Some 7) [] None SendWins ex_live)) =
             Some \<lparr>buf = [(Some 7, emptyMessage)], cap = 1, closed = False\<rparr>"
    by (simp add: r e live)
  from 1 2 3 show ?thesis by simp
qed


section \<open>The registry after Init\<close>

lemma default_dest_spec: "default_dest = spec_defaults"
  by (rule ext) (simp add: default_dest_def spec_defaults_def Dev_defs)

lemma Dev_All_spec:
  "dest s = Some m \<Longrightarrow> Dev_All w s = Returns (s\<lparr>dest := Some (spec_bindAll w m)\<rparr>)"
proof -
  assume d: "dest s = Some m"
  have "m(DevStart \<mapsto> w, DevError \<mapsto> w, DevPanic \<mapsto> w, DevTrace \<mapsto> w, DevWarning \<mapsto> w,
          DevQuery \<mapsto> w, DevData \<mapsto> w, DevSplunk \<mapsto> w) = spec_bindAll w m"
    by (rule ext) (simp add: spec_bindAll_def concrete_def Dev_defs)
  with d show ?thesis by (simp add: Dev_All_def)
qed

lemma Init_devices_spec:
  "dest s = Some m \<Longrightarrow>
     Init_devices dws s = Returns (s\<lparr>dest := Some (foldl spec_override m dws)\<rparr>)"
proof (induction dws arbitrary: s m)
  case Nil
  then show ?case by simp
next
  case (Cons dw dws)
  show ?case
  proof (cases "Device dw = DevAll")
    case True
    let ?m' = "spec_bindAll (Writer dw) m"
    let ?s' = "s\<lparr>dest := Some ?m'\<rparr>"
    have step: "spec_override m dw = ?m'"
      using True by (simp add: spec_override_def)
    have "Init_devices (dw # dws) s = Init_devices dws ?s'"
      using True Cons.prems by (simp add: Dev_All_spec and_then_def)
    also have "\<dots> = Returns (?s'\<lparr>dest := Some (foldl spec_override ?m' dws)\<rparr>)"
    proof -
      have d: "dest ?s' = Some ?m'" by simp
      show ?thesis by (rule Cons.IH [OF d])
    qed
    also have "\<dots> = Returns (s\<lparr>dest := Some (foldl spec_override m (dw # dws))\<rparr>)"
      by (simp add: step)
    finally show ?thesis .
  next
    case False
    let ?m' = "m(Device dw \<mapsto> Writer dw)"
    let ?s' = "s\<lparr>dest := Some ?m'\<rparr>"
    have step: "spec_override m dw = ?m'"
      using False unfolding spec_override_def by simp
    have "Init_devices (dw # dws) s = Init_devices dws ?s'"
      using False Cons.prems by simp
    also have "\<dots> = Returns (?s'\<lparr>dest := Some (foldl spec_override ?m' dws)\<rparr>)"
    proof -
      have d: "dest ?s' = Some ?m'" by simp
      show ?thesis by (rule Cons.IH [OF d])
    qed
    also have "\<dots> = Returns (s\<lparr>dest := Some (foldl spec_override m (dw # dws))\<rparr>)"
      by (simp add: step)
    finally show ?thesis .
  qed
qed

lemma foldl_override_DevAll: "m DevAll = None \<Longrightarrow> foldl spec_override m dws DevAll = None"
proof (induction dws arbitrary: m)
  case Nil
  then show ?case by simp
next
  case (Cons dw dws)
  have "spec_override m dw DevAll = None"
    using Cons.prems by (simp add: spec_override_def spec_bindAll_def concrete_def Dev_defs)
  then show ?case using Cons.IH by simp
qed

lemma Shutdown_returns:
  "write s = Some ch \<Longrightarrow> \<not> closed ch \<Longrightarrow>
     \<exists>s'. Shutdown drain grace s = Returns s' \<and> write s' = None"
  by (simp add: Shutdown_def Let_def)

text \<open>
  C6. From a state whose channel is nil or open, \<^verbatim>\<open>Init\<close> with a buffer size that is
  not negative returns, and the registry it leaves is the one of the specification:
  Error, Panic and Warning bound to the error stream and Start, Trace, Query, Data and
  Splunk to the output stream, then the overrides applied in listed order, an override
  for All rebinding the eight concrete categories and nothing else. The key All is
  never bound.
\<close>

theorem Init_registry:
  assumes "0 \<le> n" and "write s = None \<or> (\<exists>ch. write s = Some ch \<and> \<not> closed ch)"
  shows "\<exists>s'. Init pfx n dws drain grace s = Returns s' \<and>
              dest s' = Some (spec_registry dws) \<and> spec_registry dws DevAll = None"
proof -
  have "\<exists>s1. (if write s \<noteq> None then Shutdown drain grace s else Returns s) = Returns s1"
  proof (cases "write s")
    case None
    then show ?thesis by simp
  next
    case (Some ch)
    with assms(2) have "\<not> closed ch" by simp
    from Shutdown_returns [OF Some this] Some show ?thesis by auto
  qed
  then obtain s1 where
    s1: "(if write s \<noteq> None then Shutdown drain grace s else Returns s) = Returns s1"
    by blast
  let ?s2 = "s1\<lparr>prefix := pfx, write := Some \<lparr>buf = [], cap = nat n, closed = False\<rparr>,
                 stallTimeout := 250000000, dest := Some default_dest\<rparr>"
  have "Init_devices dws ?s2 = Returns (?s2\<lparr>dest := Some (foldl spec_override default_dest dws)\<rparr>)"
    by (rule Init_devices_spec) simp
  then have "Init pfx n dws drain grace s =
      Returns (?s2\<lparr>dest := Some (spec_registry dws), loggingOff := False, shutdown := False\<rparr>)"
    using s1 assms(1) by (simp add: Init_def and_then_def spec_registry_def default_dest_spec)
  moreover have "spec_registry dws DevAll = None"
    unfolding spec_registry_def
    by (rule foldl_override_DevAll) (simp add: spec_defaults_def Dev_defs)
  ultimately show ?thesis by simp
qed

text \<open>
  Without overrides Error goes to the error stream and Trace to the output stream; an
  override of Trace followed by one of All leaves every category on sink 7, the other
  order leaves Trace on sink 7 and rebinds it last to sink 9.
\<close>

theorem Init_registry_witness:
  "(0::int) \<le> 1 \<and> write l0 = None \<and>
   (\<exists>s'. Init ''LOG'' 1 [\<lparr>Device = DevTrace, Writer = Some 9\<rparr>, \<lparr>Device = DevAll, Writer = Some 7\<rparr>]
            [] [] l0 = Returns s' \<and> Dev_get DevTrace s' = Some 7 \<and> Dev_get DevError s' = Some 7 \<and>
          Dev_get DevAll s' = None) \<and>
   (\<exists>s'. Init ''LOG'' 1 [\<lparr>Device = DevAll, Writer = Some 7\<rparr>, \<lparr>Device = DevTrace, Writer = Some 9\<rparr>]
            [] [] l0 = Returns s' \<and> Dev_get DevTrace s' = Some 9 \<and> Dev_get DevError s' = Some 7) \<and>
   (\<exists>s'. Init ''LOG'' 1 [] [] [] l0 = Returns s' \<and> Dev_get DevError s' = os_Stderr \<and>
          Dev_get DevTrace s' = os_Stdout)"
proof -
  have n: "(0::int) \<le> 1" by simp
  have w: "write l0 = None \<or> (\<exists>ch. write l0 = Some ch \<and> \<not> closed ch)"
    by (simp add: l0_def)
  let ?ta = "[\<lparr>Device = DevTrace, Writer = Some 9\<rparr>, \<lparr>Device = DevAll, Writer = Some 7\<rparr>]"
  let ?at = "[\<lparr>Device = DevAll, Writer = Some 7\<rparr>, \<lparr>Device = DevTrace, Writer = Some 9\<rparr>]"
  have r1: "spec_registry ?ta DevTrace = Some (Some 7)" "spec_registry ?ta DevError = Some (Some 7)"
    "spec_registry ?ta DevAll = None"
    by (simp_all add: spec_registry_def spec_override_def spec_bindAll_def concrete_def
          spec_defaults_def Dev_defs)
  have r2: "spec_registry ?at DevTrace = Some (Some 9)" "spec_registry ?at DevError = Some (Some 7)"
    by (simp_all add: spec_registry_def spec_override_def spec_bindAll_def concrete_def
          spec_defaults_def Dev_defs)
  have r3: "spec_registry [] DevError = Some os_Stderr" "spec_registry [] DevTrace = Some os_Stdout"
    by (simp_all add: spec_registry_def spec_defaults_def Dev_defs)
  from Init_registry [OF n w, of "''LOG''"
         "[\<lparr>Device = DevTrace, Writer = Some 9\<rparr>, \<lparr>Device = DevAll, Writer = Some 7\<rparr>]" "[]" "[]"]
  have 1: "\<exists>s'. Init ''LOG'' 1 [\<lparr>Device = DevTrace, Writer = Some 9\<rparr>, \<lparr>Device = DevAll, Writer = Some 7\<rparr>]
            [] [] l0 = Returns s' \<and> Dev_get DevTrace s' = Some 7 \<and> Dev_get DevError s' = Some 7 \<and>
          Dev_get DevAll s' = None"
    by (auto simp add: Dev_get_def r1)
  from Init_registry [OF n w, of "''LOG''"
         "[\<lparr>Device = DevAll, Writer = Some 7\<rparr>, \<lparr>Device = DevTrace, Writer = Some 9\<rparr>]" "[]" "[]"]
  have 2: "\<exists>s'. Init ''LOG'' 1 [\<lparr>Device = DevAll, Writer = Some 7\<rparr>, \<lparr>Device = DevTrace, Writer = Some 9\<rparr>]
            [] [] l0 = Returns s' \<and> Dev_get DevTrace s' = Some 9 \<and> Dev_get DevError s' = Some 7"
    by (auto simp add: Dev_get_def r2)
  from Init_registry [OF n w, of "''LOG''" "[]" "[]" "[]"]
  have 3: "\<exists>s'. Init ''LOG'' 1 [] [] [] l0 = Returns s' \<and> Dev_get DevError s' = os_Stderr \<and>
          Dev_get DevTrace s' = os_Stdout"
    by (auto simp add: Dev_get_def r3)
  from n 1 2 3 show ?thesis by (simp add: l0_def)
qed

section \<open>The pending counter and Shutdown\<close>

text \<open>
  The counter moves in two places only: a send that wins adds one, a received line
  (also the zero line of a closed channel) takes one away. The flush, a landing write,
  the warning written on recovery, a send that loses against the timer and the
  bindings of \<^verbatim>\<open>Init\<close> leave it as it is.
\<close>

lemma pendingWrites_received: "pendingWrites (received ln s) = pendingWrites s - 1"
  by (simp add: received_def)

lemma pendingWrites_sent:
  "write s = Some ch \<Longrightarrow> \<not> closed ch \<Longrightarrow> length (buf ch) < cap ch \<Longrightarrow>
     pendingWrites (final (enqueue ln SendWins s)) = pendingWrites s + 1"
  by (simp add: enqueue_def)

lemma pendingWrites_kept:
  "pendingWrites (flush s) = pendingWrites s"
  "pendingWrites (land i s) = pendingWrites s"
  "pendingWrites (Fprintf k txt s) = pendingWrites s"
  "pendingWrites (final (enqueue ln TimerWins s)) = pendingWrites s"
  "pendingWrites (final (Dev_All w s)) = pendingWrites s"
  by (simp_all add: flush_def land_def Fprintf_def enqueue_def Dev_All_def split: option.splits)

text \<open>
  C3. \<^verbatim>\<open>Init("LOG", 0)\<close> followed by \<^verbatim>\<open>Shutdown()\<close>: no line was ever queued, the
  writer's select takes the receive case once on the closed channel before it takes
  the exit case, and the counter ends at -1.
\<close>

theorem pendingWrites_negative_after_Shutdown:
  "returned (and_then (Init ''LOG'' 0 [] [] [] l0) (Shutdown [Recv] [])) \<and>
   sint (pendingWrites (final (and_then (Init ''LOG'' 0 [] [] [] l0) (Shutdown [Recv] [])))) = - 1"
  by (simp add: Init_def Shutdown_def and_then_def l0_def Let_def safeWrite_recv_def
        received_def flush_def)

lemma bytes_for_Cons:
  "bytes_for k ((k', v) # al) = (if k' = k then v else []) @ bytes_for k al"
  by (simp add: bytes_for_def)

lemma bytes_for_Nil: "bytes_for k [] = []"
  by (simp add: bytes_for_def)

lemma bytes_for_absent: "k \<notin> fst ` set al \<Longrightarrow> bytes_for k al = []"
  by (induction al) (auto simp: bytes_for_def)

lemma bytes_for_append: "bytes_for k (xs @ ys) = bytes_for k xs @ bytes_for k ys"
  by (simp add: bytes_for_def)

lemma keys_bulk_append: "fst ` set (bulk_append k b al) = insert k (fst ` set al)"
proof (induction al)
  case Nil
  show ?case by simp
next
  case (Cons e al)
  obtain k' v where e: "e = (k', v)" by (cases e)
  show ?case using Cons e by (cases "k' = k") (auto simp: image_iff)
qed

lemma distinct_bulk_append:
  "distinct (map fst al) \<Longrightarrow> distinct (map fst (bulk_append k b al))"
proof (induction al)
  case Nil
  then show ?case by simp
next
  case (Cons e al)
  obtain k' v where e: "e = (k', v)" by (cases e)
  show ?case
  proof (cases "k' = k")
    case True
    with Cons.prems e show ?thesis by simp
  next
    case False
    with Cons e show ?thesis by (simp add: keys_bulk_append)
  qed
qed

lemma bytes_for_bulk_append:
  "distinct (map fst al) \<Longrightarrow>
     bytes_for k (bulk_append k' b al) = bytes_for k al @ (if k = k' then b else [])"
proof (induction al)
  case Nil
  then show ?case by (simp add: bytes_for_Cons bytes_for_Nil)
next
  case (Cons e al)
  obtain k'' v where e: "e = (k'', v)" by (cases e)
  show ?case
  proof (cases "k'' = k'")
    case True
    with Cons.prems e have "k' \<notin> fst ` set al" by auto
    then have "bytes_for k' al = []" by (rule bytes_for_absent)
    with True e show ?thesis by (auto simp: bytes_for_Cons)
  next
    case False
    with Cons e show ?thesis by (simp add: bytes_for_Cons)
  qed
qed

lemma handed_received:
  "distinct (map fst (bulkLines s)) \<Longrightarrow>
     handed k (received ln s) = handed k s @ chan_bytes k [ln] \<and>
     distinct (map fst (bulkLines (received ln s)))"
  by (cases ln) (auto simp: handed_def received_def chan_bytes_def bytes_for_bulk_append
                        distinct_bulk_append split: option.splits)

lemma write_received: "write (received ln s) = write s"
  by (simp add: received_def)

lemma handed_step:
  assumes "write s = Some ch" and "distinct (map fst (bulkLines s))"
  shows "\<exists>ch'. write (safeWrite_step st s) = Some ch' \<and>
           buf ch' = drop (if st = Recv then 1 else 0) (buf ch) \<and>
           distinct (map fst (bulkLines (safeWrite_step st s))) \<and>
           handed k (safeWrite_step st s) =
             handed k s @ chan_bytes k (take (if st = Recv then 1 else 0) (buf ch))"
proof (cases st)
  case Recv
  show ?thesis
  proof (cases "buf ch")
    case Nil
    with Recv assms handed_received [of s k "(None, [])"] show ?thesis
      by (auto simp: safeWrite_recv_def write_received chan_bytes_def)
  next
    case (Cons ln rest)
    let ?s' = "s\<lparr>write := Some (ch\<lparr>buf := rest\<rparr>)\<rparr>"
    have d: "distinct (map fst (bulkLines ?s'))" using assms(2) by simp
    have h: "handed k ?s' = handed k s" by (simp add: handed_def)
    from handed_received [OF d, of k ln] h Recv Cons assms(1) show ?thesis
      by (simp add: safeWrite_recv_def write_received)
  qed
next
  case Tick
  with assms show ?thesis
    by (simp add: flush_def handed_def bytes_for_append chan_bytes_def bytes_for_def)
next
  case (Land i)
  with assms show ?thesis
    by (simp add: land_def handed_def chan_bytes_def)
qed

lemma handed_drain:
  "write s = Some ch \<Longrightarrow> distinct (map fst (bulkLines s)) \<Longrightarrow>
     \<exists>ch'. write (fold safeWrite_step ws s) = Some ch' \<and>
       buf ch' = drop (count_list ws Recv) (buf ch) \<and>
       distinct (map fst (bulkLines (fold safeWrite_step ws s))) \<and>
       handed k (fold safeWrite_step ws s) =
         handed k s @ chan_bytes k (take (count_list ws Recv) (buf ch))"
proof (induction ws arbitrary: s ch)
  case Nil
  then show ?case by (simp add: chan_bytes_def)
next
  case (Cons st ws)
  let ?n = "if st = Recv then 1 else (0::nat)"
  from handed_step [OF Cons.prems, of st k] obtain ch1 where
    w1: "write (safeWrite_step st s) = Some ch1" and
    b1: "buf ch1 = drop ?n (buf ch)" and
    d1: "distinct (map fst (bulkLines (safeWrite_step st s)))" and
    h1: "handed k (safeWrite_step st s) = handed k s @ chan_bytes k (take ?n (buf ch))"
    by blast
  from Cons.IH [OF w1 d1] obtain ch' where
    w2: "write (fold safeWrite_step ws (safeWrite_step st s)) = Some ch'" and
    b2: "buf ch' = drop (count_list ws Recv) (buf ch1)" and
    d2: "distinct (map fst (bulkLines (fold safeWrite_step ws (safeWrite_step st s))))" and
    h2: "handed k (fold safeWrite_step ws (safeWrite_step st s)) =
           handed k (safeWrite_step st s) @ chan_bytes k (take (count_list ws Recv) (buf ch1))"
    by blast
  have cnt: "count_list (st # ws) Recv = ?n + count_list ws Recv" by simp
  have tk: "take (?n + count_list ws Recv) (buf ch) =
              take ?n (buf ch) @ take (count_list ws Recv) (drop ?n (buf ch))"
    by (simp add: take_add)
  have cb: "chan_bytes k (xs @ ys) = chan_bytes k xs @ chan_bytes k ys" for xs ys
    by (simp add: chan_bytes_def)
  show ?case
    using w2 b2 d2 h2 h1 b1 unfolding cnt tk cb
    by (simp add: add.commute)
qed

lemma spawned_land: "spawned (land i s) = spawned s"
  by (simp add: land_def)

lemma spawned_fold_land: "spawned (fold land is s) = spawned s"
  by (induction "is" arbitrary: s) (simp_all add: spawned_land)

lemma bulkLines_fold_land: "bulkLines (fold land is s) = bulkLines s"
  by (induction "is" arbitrary: s) (simp_all add: land_def)

text \<open>
  C2, as stated, fails. The line \<open>x\<close> is in the channel when \<^verbatim>\<open>Shutdown\<close> is
  called. In the first run the writer takes it and flushes it on exit, but sink 7 has
  not completed the write when \<^verbatim>\<open>Shutdown\<close> returns: the content of the sink is
  empty and the write is still in flight. In the second run the select takes the exit
  case before the line, and the line is in no write at all.
\<close>

theorem Shutdown_returns_before_delivery:
  "write ex_queued = Some \<lparr>buf = [(Some 7, ''x\<newline>'')], cap = 1, closed = False\<rparr> \<and>
   returned (Shutdown [Recv] [] ex_queued) \<and>
   content (final (Shutdown [Recv] [] ex_queued)) 7 = [] \<and>
   spawned (final (Shutdown [Recv] [] ex_queued)) = [(7, ''x\<newline>'')] \<and>
   landed (final (Shutdown [Recv] [] ex_queued)) = [] \<and>
   returned (Shutdown [] [] ex_queued) \<and>
   content (final (Shutdown [] [] ex_queued)) 7 = [] \<and>
   spawned (final (Shutdown [] [] ex_queued)) = []"
  by (simp add: ex_queued_eq ex_live_fields Shutdown_def Let_def safeWrite_recv_def
        received_def flush_def)

text \<open>
  C2, amended. \<^verbatim>\<open>Shutdown\<close> on an open channel returns with the channel gone and the
  bulk buffers empty, and for every sink the bytes handed to its writes are, in this
  order, those handed before, those that were in its bulk buffer, and the payloads of
  its lines that the writer received before it took the exit case, each whole and
  once. (Whether a write has reached the content of the sink at that moment depends on
  the sink.)
\<close>

theorem Shutdown_hands_over:
  assumes "write s = Some ch" and "\<not> closed ch" and "distinct (map fst (bulkLines s))"
  shows "\<exists>s'. Shutdown drain grace s = Returns s' \<and> write s' = None \<and> bulkLines s' = [] \<and>
           bytes_for k (spawned s') =
             bytes_for k (spawned s) @ bytes_for k (bulkLines s) @
             chan_bytes k (take (count_list drain Recv) (buf ch))"
proof -
  let ?s1 = "s\<lparr>shutdown := True, write := Some (ch\<lparr>closed := True\<rparr>)\<rparr>"
  let ?s2 = "fold safeWrite_step drain ?s1"
  have w: "write ?s1 = Some (ch\<lparr>closed := True\<rparr>)" by simp
  have d: "distinct (map fst (bulkLines ?s1))" using assms(3) by simp
  from handed_drain [OF w d, of drain k]
  have h: "handed k ?s2 = handed k ?s1 @ chan_bytes k (take (count_list drain Recv) (buf ch))"
    by auto
  have "bytes_for k (spawned (flush ?s2)) = handed k ?s2"
    by (simp add: flush_def handed_def bytes_for_append)
  with h have "bytes_for k (spawned (fold land grace (flush ?s2))) =
      bytes_for k (spawned s) @ bytes_for k (bulkLines s) @
      chan_bytes k (take (count_list drain Recv) (buf ch))"
    by (simp add: spawned_fold_land handed_def)
  moreover have "bulkLines (fold land grace (flush ?s2)) = []"
    by (simp add: bulkLines_fold_land flush_def)
  ultimately show ?thesis
    using assms(1,2) by (simp add: Shutdown_def Let_def)
qed

text \<open>
  The waiting line \<open>x\<close> is received before the exit case: its bytes are handed to a
  write to sink 7, and when that write lands during the grace sleep the content of the
  sink is the line.
\<close>

theorem Shutdown_hands_over_witness:
  "write ex_queued = Some \<lparr>buf = [(Some 7, ''x\<newline>'')], cap = 1, closed = False\<rparr> \<and>
   distinct (map fst (bulkLines ex_queued)) \<and>
   (\<exists>s'. Shutdown [Recv] [0] ex_queued = Returns s' \<and> bytes_for 7 (spawned s') = ''x\<newline>'') \<and>
   content (final (Shutdown [Recv] [0] ex_queued)) 7 = ''x\<newline>''"
proof -
  have w: "write ex_queued = Some \<lparr>buf = [(Some 7, ''x\<newline>'')], cap = 1, closed = False\<rparr>"
    by (simp add: ex_queued_eq)
  have c: "\<not> closed \<lparr>buf = [(Some 7, ''x\<newline>'')], cap = 1, closed = False\<rparr>"
    by simp
  have d: "distinct (map fst (bulkLines ex_queued))"
    by (simp add: ex_queued_eq ex_live_fields)
  from Shutdown_hands_over [OF w c d, of "[Recv]" "[0]" 7]
  have 1: "\<exists>s'. Shutdown [Recv] [0] ex_queued = Returns s' \<and> bytes_for 7 (spawned s') = ''x\<newline>''"
    by (auto simp add: ex_queued_eq ex_live_fields bytes_for_def chan_bytes_def)
  have 2: "content (final (Shutdown [Recv] [0] ex_queued)) 7 = ''x\<newline>''"
    by (simp add: ex_queued_eq ex_live_fields Shutdown_def Let_def safeWrite_recv_def
          received_def flush_def land_def)
  from w d 1 2 show ?thesis by simp
qed

section \<open>The call-site resolver\<close>

lemma digit_not_colon: "d < 10 \<Longrightarrow> digit d \<noteq> CHR '':''"
proof -
  assume "d < 10"
  then have "digit d \<in> set ''0123456789''"
    unfolding digit_def by (intro nth_mem) simp
  then show ?thesis by auto
qed

lemma showNat_last: "showNat n \<noteq> [] \<and> last (showNat n) \<noteq> CHR '':''"
proof (cases "n < 10")
  case True
  then show ?thesis by (simp add: showNat.simps [of n] digit_not_colon)
next
  case False
  have "n mod 10 < 10" by simp
  then have "digit (n mod 10) \<noteq> CHR '':''" by (rule digit_not_colon)
  with False show ?thesis by (simp add: showNat.simps [of n])
qed

lemma showInt_last: "showInt i \<noteq> [] \<and> last (showInt i) \<noteq> CHR '':''"
  using showNat_last [of "nat i"] showNat_last [of "nat (- i)"]
  by (simp add: showInt_def)

lemma Sprintf_file_line:
  "Sprintf ''%s#%d'' [Str file, Basic (VInt ln)] = file @ ''#'' @ showInt ln"
  by (simp add: fmtArg_def)

lemma file_line_last: "last (file @ ''#'' @ showInt ln) \<noteq> CHR '':''"
  using showInt_last [of ln] by simp

lemma runtime_Caller_beyond:
  "int (length (stack e)) \<le> d \<Longrightarrow> runtime_Caller e d = None"
  by (auto simp add: runtime_Caller_def)

text \<open>Where \<^verbatim>\<open>calldepth+1\<close> and \<^verbatim>\<open>calldepth-1\<close> do not wrap around, and where the sum does.\<close>

lemma goint_succ: "sint (d::goint) < 9223372036854775807 \<Longrightarrow> sint (d + 1) = sint d + 1"
  using sint_ge [of d]
  by (simp add: sint_word_ariths signed_take_bit_int_eq_self)

lemma goint_pred: "- 9223372036854775808 < sint (d::goint) \<Longrightarrow> sint (d - 1) = sint d - 1"
  using sint_lt [of d]
  by (simp add: sint_word_ariths signed_take_bit_int_eq_self)

lemma goint_succ_wraps:
  "sint (d::goint) = 9223372036854775807 \<Longrightarrow> sint (d + 1) = - 9223372036854775808"
  by (simp add: sint_word_ariths)

lemma runtime_Callers_nth:
  "j < n \<Longrightarrow>
     runtime_Callers e skip n ! j =
       (if 0 \<le> skip - 1 + int j \<and> nat (skip - 1 + int j) < length (stack e)
        then Some (stack e ! nat (skip - 1 + int j)) else None)"
  by (simp add: runtime_Callers_def Let_def)

lemma length_runtime_Callers: "length (runtime_Callers e skip n) = n"
  by (simp add: runtime_Callers_def)

text \<open>
  The name that an empty \<open>function\<close> resolves to when the depth is at least 1 and the
  slots can be allocated: the function of the frame at position \<open>2 * calldepth - 2\<close>
  of the stack, and the empty name when the stack has no such frame.
\<close>

lemma funcName_resolves:
  assumes "1 \<le> sint (d::goint)" and "8 * (sint d + 1) \<le> maxAlloc"
    and "nat (sint d + 1) \<le> heap e"
  shows "(case makeslice e (sint (d + 1)) of
            Inl p \<Rightarrow> Inl p
          | Inr n \<Rightarrow>
              (let pc = runtime_Callers e (sint d) n
               in if sint (d - 1) < 0 \<or> length pc \<le> nat (sint (d - 1))
                  then Inl (Panic ''index out of range'')
                  else Inr (snd (path_Split (Func_Name (pc ! nat (sint (d - 1)))))))) =
         Inr (snd (path_Split (Func_Name
                (if nat (2 * sint d - 2) < length (stack e)
                 then Some (stack e ! nat (2 * sint d - 2)) else None))))"
proof -
  from assms(2) have b: "sint d < 9223372036854775807" "- 9223372036854775808 < sint d"
    using assms(1) by (simp_all add: maxAlloc_def)
  have s: "sint (d + 1) = sint d + 1"
    using b(1) by (rule goint_succ)
  have p: "sint (d - 1) = sint d - 1"
    using b(2) by (rule goint_pred)
  have m: "makeslice e (sint (d + 1)) = Inr (nat (sint d + 1))"
    using assms by (simp add: makeslice_def s)
  have i: "nat (sint d - 1) < nat (sint d + 1)"
    using assms(1) by simp
  have n: "sint d - 1 + int (nat (sint d - 1)) = 2 * sint d - 2"
    using assms(1) by simp
  have z: "0 \<le> 2 * sint d - 2"
    using assms(1) by simp
  show ?thesis
    using assms(1) i z
    by (simp add: m p Let_def length_runtime_Callers runtime_Callers_nth n)
qed

text \<open>
  In non-test mode, with a function name that is not empty, or with a depth of at
  least 1 whose slots can be allocated: whenever the file and line walk fails, and so
  when the depth exceeds the stack, the result is the file \<open>unknown.go#0:\<close> with the
  function \<open>missing\<close>; when the walk succeeds the file is the base name of the path,
  \<open>#\<close> and the decimal line, which does not end in a colon, and the function is the
  given name or, for the empty name, the one of the frame at position
  \<open>2 * calldepth - 2\<close>.
\<close>

lemma dtFile_degrades:
  assumes "test s \<noteq> 1"
    and "f \<noteq> [] \<or> (1 \<le> sint d \<and> 8 * (sint d + 1) \<le> maxAlloc \<and> nat (sint d + 1) \<le> heap e)"
  shows "(int (length (stack e)) \<le> sint d \<or> runtime_Caller e (sint d) = None \<longrightarrow>
            dtFile d f e s = Inr (clock e, ''unknown.go#0:'', ''missing'', getpid e)) \<and>
         (runtime_Caller e (sint d) = Some (p, n) \<longrightarrow>
            dtFile d f e s =
              Inr (clock e, snd (path_Split p) @ ''#'' @ showInt n,
                   (if f = [] then snd (path_Split (Func_Name
                        (if nat (2 * sint d - 2) < length (stack e)
                         then Some (stack e ! nat (2 * sint d - 2)) else None)))
                    else f), getpid e) \<and>
            last (snd (path_Split p) @ ''#'' @ showInt n) \<noteq> CHR '':'')"
proof -
  let ?fn = "if f = [] then snd (path_Split (Func_Name
                        (if nat (2 * sint d - 2) < length (stack e)
                         then Some (stack e ! nat (2 * sint d - 2)) else None)))
             else f"
  have fn: "(if f = [] then
              (case makeslice e (sint (d + 1)) of
                 Inl p \<Rightarrow> Inl p
               | Inr n \<Rightarrow>
                   (let pc = runtime_Callers e (sint d) n
                    in if sint (d - 1) < 0 \<or> length pc \<le> nat (sint (d - 1))
                       then Inl (Panic ''index out of range'')
                       else Inr (snd (path_Split (Func_Name (pc ! nat (sint (d - 1))))))))
            else Inr f) = Inr ?fn"
  proof (cases "f = []")
    case True
    with assms(2) funcName_resolves [of d e] show ?thesis by simp
  next
    case False
    then show ?thesis by simp
  qed
  have eq: "dtFile d f e s =
      (case runtime_Caller e (sint d) of
         None \<Rightarrow> Inr (clock e, ''unknown.go#0:'', ''missing'', getpid e)
       | Some (filePath, ln) \<Rightarrow>
           Inr (clock e, snd (path_Split filePath) @ ''#'' @ showInt ln, ?fn, getpid e))"
    unfolding dtFile_def fn using assms(1) by (simp add: fmtArg_def split: option.splits)
  have 1: "dtFile d f e s = Inr (clock e, ''unknown.go#0:'', ''missing'', getpid e)"
    if "int (length (stack e)) \<le> sint d \<or> runtime_Caller e (sint d) = None"
    using that runtime_Caller_beyond [of e "sint d"] by (auto simp add: eq)
  have 2: "dtFile d f e s =
             Inr (clock e, snd (path_Split p) @ ''#'' @ showInt n, ?fn, getpid e)"
    if "runtime_Caller e (sint d) = Some (p, n)"
    using that by (simp add: eq)
  from 1 2 file_line_last show ?thesis by blast
qed

text \<open>
  From \<^verbatim>\<open>main.someFunc\<close> logging on line 13: depth 3 resolves \<open>main.go#13\<close>, depth
  20 exceeds the stack and gives the sentinels.
\<close>

lemma dtFile_degrades_example:
  "test ex_live \<noteq> 1 \<and>
   dtFile 20 [] ex_direct ex_live = Inr (''T'', ''unknown.go#0:'', ''missing'', 42) \<and>
   runtime_Caller ex_direct 3 = Some (''/home/u/main.go'', 13) \<and>
   dtFile 3 [] ex_direct ex_live = Inr (''T'', ''main.go#13'', ''main.main'', 42)"
proof -
  have t: "test ex_live \<noteq> 1" by (simp add: ex_live_fields)
  have c: "runtime_Caller ex_direct 3 = Some (''/home/u/main.go'', 13)"
    by (simp add: runtime_Caller_def ex_direct_def user_frames_def lib_frame_def)
  have b: "snd (path_Split ''/home/u/main.go'') @ ''#'' @ showInt 13 = ''main.go#13''"
    by (simp add: path_Split_def showInt_def showNat.simps digit_def)
  have l: "int (length (stack ex_direct)) \<le> 20"
    by (simp add: ex_direct_def user_frames_def)
  have e: "clock ex_direct = ''T''" "getpid ex_direct = 42" "heap ex_direct = 4096"
    by (simp_all add: ex_direct_def)
  have f: "4 < length (stack ex_direct)"
    "snd (path_Split (Func_Name (Some (stack ex_direct ! 4)))) = ''main.main''"
    by (simp_all add: ex_direct_def user_frames_def Func_Name_def path_Split_def)
  from dtFile_degrades [OF t, of "[]" 20 ex_direct] l e
  have 1: "dtFile 20 [] ex_direct ex_live = Inr (''T'', ''unknown.go#0:'', ''missing'', 42)"
    by (simp add: maxAlloc_def)
  from dtFile_degrades [OF t, of "[]" 3 ex_direct "''/home/u/main.go''" 13] c b e f
  have 2: "dtFile 3 [] ex_direct ex_live = Inr (''T'', ''main.go#13'', ''main.main'', 42)"
    by (simp add: maxAlloc_def)
  from t 1 c 2 show ?thesis by simp
qed

text \<open>
  With an empty function name the call stops, and returns nothing, at every depth that
  is not positive and at every depth from \<open>2 ^ 45\<close> on.
\<close>

lemma dtFile_stops_outside:
  assumes "sint d \<le> 0 \<or> 2 ^ 45 \<le> sint d"
  shows "\<exists>p. dtFile d [] e s = Inl p"
proof -
  have "\<exists>p. (case makeslice e (sint (d + 1)) of
               Inl p \<Rightarrow> Inl p
             | Inr n \<Rightarrow>
                 (let pc = runtime_Callers e (sint d) n
                  in if sint (d - 1) < 0 \<or> length pc \<le> nat (sint (d - 1))
                     then Inl (Panic ''index out of range'')
                     else Inr (snd (path_Split (Func_Name (pc ! nat (sint (d - 1)))))))) = Inl p"
  proof (cases "sint d = 9223372036854775807")
    case True
    then show ?thesis by (simp add: goint_succ_wraps makeslice_def)
  next
    case False
    with sint_lt [of d] have "sint d < 9223372036854775807" by simp
    then have s: "sint (d + 1) = sint d + 1" by (rule goint_succ)
    from assms show ?thesis
    proof
      assume big: "2 ^ 45 \<le> sint d"
      then show ?thesis by (simp add: s makeslice_def maxAlloc_def)
    next
      assume le: "sint d \<le> 0"
      show ?thesis
      proof (cases "sint d < - 1")
        case True
        then show ?thesis by (simp add: s makeslice_def)
      next
        case False
        with le have "- 9223372036854775808 < sint d" by simp
        then have "sint (d - 1) = sint d - 1" by (rule goint_pred)
        with le show ?thesis
          by (simp add: s makeslice_def Let_def split: sum.splits)
      qed
    qed
  qed
  then show ?thesis by (auto simp add: dtFile_def)
qed

text \<open>
  C7. In non-test mode, on the stack of a call of \<^verbatim>\<open>Tracef\<close> on an \<^verbatim>\<open>Uplevel\<close>
  value from line 13 of \<^verbatim>\<open>main.someFunc\<close>, \<^verbatim>\<open>dtFile\<close> with an empty function name
  does not degrade to the sentinels: at depth 0 the index \<^verbatim>\<open>pc[calldepth-1]\<close> is -1
  and the call panics; at depth \<open>2 ^ 62\<close> and at the greatest \<^verbatim>\<open>int\<close>, whose
  successor wraps around to a negative length, \<^verbatim>\<open>make\<close> panics; at depth 4, where
  the file and line walk succeeds on \<^verbatim>\<open>runtime.main\<close> and the name is read beyond the
  stack, the function name is empty and not \<open>missing\<close>. Depth 0 is what
  \<^verbatim>\<open>Uplevel(-2).Tracef\<close> passes, and that call panics before it queues a line.
\<close>

theorem dtFile_stops_instead_of_degrading:
  "test ex_live \<noteq> 1 \<and>
   dtFile 0 [] ex_uplevel ex_live = Inl (Panic ''index out of range'') \<and>
   dtFile 4611686018427387904 [] ex_uplevel ex_live = Inl (Panic ''makeslice: len out of range'') \<and>
   dtFile 9223372036854775807 [] ex_uplevel ex_live = Inl (Panic ''makeslice: len out of range'') \<and>
   dtFile 4 [] ex_uplevel ex_live = Inr (''T'', ''proc.go#250'', [], 42) \<and>
   Uplevel_call (- 2) (Tracef (Str ''ctx'') [] ''hi'' []) ex_uplevel ex_timing ex_live =
     Stops (Panic ''index out of range'') ex_live"
proof -
  have t: "test ex_live \<noteq> 1" by (simp add: ex_live_fields)
  have h: "heap ex_uplevel = 4096" by (simp add: ex_uplevel_def)
  have 0: "dtFile 0 [] ex_uplevel ex_live = Inl (Panic ''index out of range'')"
    by (simp add: dtFile_def makeslice_def maxAlloc_def h)
  have 1: "dtFile 4611686018427387904 [] ex_uplevel ex_live =
             Inl (Panic ''makeslice: len out of range'')"
    by (simp add: dtFile_def makeslice_def maxAlloc_def)
  have 2: "dtFile 9223372036854775807 [] ex_uplevel ex_live =
             Inl (Panic ''makeslice: len out of range'')"
    by (simp add: dtFile_def makeslice_def maxAlloc_def)
  have 3: "dtFile 4 [] ex_uplevel ex_live = Inr (''T'', ''proc.go#250'', [], 42)"
    by (simp add: dtFile_def makeslice_def maxAlloc_def ex_live_fields runtime_Caller_def
          runtime_Callers_def ex_uplevel_def user_frames_def lib_frame_def path_Split_def
          Func_Name_def fmtArg_def showInt_def showNat.simps digit_def)
  have 4: "Uplevel_call (- 2) (Tracef (Str ''ctx'') [] ''hi'' []) ex_uplevel ex_timing ex_live =
             Stops (Panic ''index out of range'') ex_live"
    by (simp add: resolved_def 0)
  from t 0 1 2 3 4 show ?thesis by simp
qed

text \<open>
  C10. With an explicit function name: in non-test mode a failed file and line walk
  returns the function \<open>missing\<close> and drops the name; a successful walk returns the
  name; and so does test mode, whatever the stack.
\<close>

theorem dtFile_explicit_name:
  "f \<noteq> [] \<Longrightarrow>
     (test s \<noteq> 1 \<and> runtime_Caller e (sint d) = None \<longrightarrow>
        dtFile d f e s = Inr (clock e, ''unknown.go#0:'', ''missing'', getpid e)) \<and>
     (test s \<noteq> 1 \<and> runtime_Caller e (sint d) = Some (p, n) \<longrightarrow>
        dtFile d f e s = Inr (clock e, snd (path_Split p) @ ''#'' @ showInt n, f, getpid e)) \<and>
     (test s = 1 \<longrightarrow> dtFile d f e s = Inr (test_time, ''file.go#512'', f, 69910))"
  by (simp add: dtFile_def fmtArg_def)

theorem dtFile_explicit_name_witness:
  "dtFile 20 ''Square'' ex_direct ex_live = Inr (''T'', ''unknown.go#0:'', ''missing'', 42) \<and>
   dtFile 3 ''Square'' ex_direct ex_live = Inr (''T'', ''main.go#13'', ''Square'', 42) \<and>
   dtFile 20 ''Square'' ex_direct (ex_live\<lparr>test := 1\<rparr>) =
     Inr (test_time, ''file.go#512'', ''Square'', 69910)"
proof -
  have f: "''Square'' \<noteq> []" by simp
  have t: "test ex_live \<noteq> 1" "test (ex_live\<lparr>test := 1\<rparr>) = 1"
    by (simp_all add: ex_live_fields)
  have c: "runtime_Caller ex_direct 3 = Some (''/home/u/main.go'', 13)"
    "runtime_Caller ex_direct 20 = None"
    by (simp_all add: runtime_Caller_def ex_direct_def user_frames_def lib_frame_def)
  have b: "snd (path_Split ''/home/u/main.go'') @ ''#'' @ showInt 13 = ''main.go#13''"
    by (simp add: path_Split_def showInt_def showNat.simps digit_def)
  have e: "clock ex_direct = ''T''" "getpid ex_direct = 42"
    by (simp_all add: ex_direct_def)
  from dtFile_explicit_name [OF f, of ex_live ex_direct 20] t c e
  have 1: "dtFile 20 ''Square'' ex_direct ex_live = Inr (''T'', ''unknown.go#0:'', ''missing'', 42)"
    by simp
  from dtFile_explicit_name [OF f, of ex_live ex_direct 3 "''/home/u/main.go''" 13] t c b e
  have 2: "dtFile 3 ''Square'' ex_direct ex_live = Inr (''T'', ''main.go#13'', ''Square'', 42)"
    by simp
  from dtFile_explicit_name [OF f, of "ex_live\<lparr>test := 1\<rparr>" ex_direct 20] t
  have 3: "dtFile 20 ''Square'' ex_direct (ex_live\<lparr>test := 1\<rparr>) =
             Inr (test_time, ''file.go#512'', ''Square'', 69910)"
    by simp
  from 1 2 3 show ?thesis by simp
qed

section \<open>Level gates\<close>

lemmas Level_defs = LevelOff_def LevelError_def LevelWarning_def LevelOutput_def LevelTrace_def

text \<open>
  C4. A call on a Logger goes on to the same method of the package-level
  \<^verbatim>\<open>Up1\<close> exactly when the value that the level accessor returns at this call is
  at least the minimum of the call's family (1 for the error family, 2 for
  \<^verbatim>\<open>Warnf\<close>, 3 for the data family, 4 for the rest), and a call on its proxy goes
  on to the proxy's uplevel under the same condition; otherwise the call returns with
  the state as it was, without resolving the call site, formatting or dispatching. At
  level 0 no call goes on.
\<close>

theorem level_gate:
  "Logger_call l c x e t s =
     (if spec_min_level c \<le> lg_level l x then Uplevel_call Up1 c e t s else Returns s) \<and>
   UplevelLogger_call p c x e t s =
     (if spec_min_level c \<le> ul_level p x then Uplevel_call (ul_up p) c e t s else Returns s) \<and>
   (lg_level l x \<le> LevelOff \<longrightarrow> Logger_call l c x e t s = Returns s) \<and>
   (ul_level p x \<le> LevelOff \<longrightarrow> UplevelLogger_call p c x e t s = Returns s)"
  by (cases c) (simp_all add: Level_defs)

text \<open>
  A Logger at level Warning: \<^verbatim>\<open>Warnf\<close> queues its line for sink 7, \<^verbatim>\<open>Tracef\<close>
  returns with the logger as it was.
\<close>

theorem level_gate_witness:
  "spec_min_level (Warnf (Str ''ctx'') ''fn'' ''hi %d'' [Basic (VInt 1)]) \<le> lg_level ex_logger () \<and>
   write (final (Logger_call ex_logger (Warnf (Str ''ctx'') ''fn'' ''hi %d'' [Basic (VInt 1)]) ()
                   ex_direct ex_timing ex_live)) =
     Some \<lparr>buf = [(Some 7, ''T: LOG[42]: main.go#13: ctx: fn: Warning: hi 1\<newline>'')],
           cap = 1, closed = False\<rparr> \<and>
   \<not> spec_min_level (Tracef (Str ''ctx'') [] ''hi'' []) \<le> lg_level ex_logger () \<and>
   Logger_call ex_logger (Tracef (Str ''ctx'') [] ''hi'' []) () ex_direct ex_timing ex_live =
     Returns ex_live"
proof -
  have lv: "lg_level ex_logger () = 2"
    by (simp add: ex_logger_def NewLogger_def Level_defs)
  have d: "dtFile 3 ''fn'' ex_direct ex_live = Inr (''T'', ''main.go#13'', ''fn'', 42)"
    by (simp add: dtFile_def ex_live_fields runtime_Caller_def ex_direct_def user_frames_def
          lib_frame_def path_Split_def fmtArg_def showInt_def showNat.simps digit_def)
  have u: "write (final (Uplevel_call Up1 (Warnf (Str ''ctx'') ''fn'' ''hi %d'' [Basic (VInt 1)])
                           ex_direct ex_timing ex_live)) =
     Some \<lparr>buf = [(Some 7, ''T: LOG[42]: main.go#13: ctx: fn: Warning: hi 1\<newline>'')],
           cap = 1, closed = False\<rparr>"
    by (simp add: Up1_def resolved_def d operands_def ex_live_fields ex_live_Dev_get
          ex_timing_def output_def rendered_def payload_def locked_def enqueue_def
          fmtArg_def showInt_def showNat.simps digit_def)
  from level_gate [of ex_logger "Warnf (Str ''ctx'') ''fn'' ''hi %d'' [Basic (VInt 1)]" "()"
         ex_direct ex_timing ex_live] lv u
  have 1: "write (final (Logger_call ex_logger (Warnf (Str ''ctx'') ''fn'' ''hi %d'' [Basic (VInt 1)]) ()
                   ex_direct ex_timing ex_live)) =
     Some \<lparr>buf = [(Some 7, ''T: LOG[42]: main.go#13: ctx: fn: Warning: hi 1\<newline>'')],
           cap = 1, closed = False\<rparr>"
    by simp
  from level_gate [of ex_logger "Tracef (Str ''ctx'') [] ''hi'' []" "()"
         ex_direct ex_timing ex_live] lv
  have 2: "Logger_call ex_logger (Tracef (Str ''ctx'') [] ''hi'' []) () ex_direct ex_timing ex_live =
             Returns ex_live"
    by simp
  from lv 1 2 show ?thesis by simp
qed

section \<open>Uplevel and the proxies\<close>

text \<open>
  The proxy of a Logger made by \<^verbatim>\<open>NewLogger\<close> resolves through uplevel 2 and the
  Logger itself through uplevel 1, so the depth handed to \<^verbatim>\<open>dtFile\<close> is greater by
  one.
\<close>

lemma proxy_one_deeper:
  "Logger_call (NewLogger nm lv) c x e t s =
     (if spec_min_level c \<le> lv x then Uplevel_call 1 c e t s else Returns s) \<and>
   UplevelLogger_call (lg_Up1 (NewLogger nm lv)) c x e t s =
     (if spec_min_level c \<le> lv x then Uplevel_call (1 + 1) c e t s else Returns s)"
  by (cases c) (simp_all add: Level_defs NewLogger_def Up1_def)

text \<open>
  With an explicit function name, a depth greater by one on a stack with one more
  frame (the helper \<open>h\<close>) under the frames of the library resolves what the smaller
  depth resolves without the helper.
\<close>

lemma dtFile_one_frame_higher:
  assumes "f \<noteq> []" and "0 \<le> sint d" and "sint d < 9223372036854775807"
    and "length pre = nat (sint d)" and "length pre' = nat (sint d)"
  shows "dtFile (d + 1) f (e\<lparr>stack := pre @ h # stk\<rparr>) s = dtFile d f (e\<lparr>stack := pre' @ stk\<rparr>) s"
proof -
  have s: "sint (d + 1) = sint d + 1"
    using assms(3) by (rule goint_succ)
  have "runtime_Caller (e\<lparr>stack := pre @ h # stk\<rparr>) (sint d + 1) =
        runtime_Caller (e\<lparr>stack := pre' @ stk\<rparr>) (sint d)"
    using assms(2,4,5) by (auto simp add: runtime_Caller_def nth_append nat_add_distrib)
  with assms(1) show ?thesis by (simp add: dtFile_def s split: option.splits)
qed

text \<open>
  C8. A Logger at level Trace and the call \<^verbatim>\<open>Tracef(ctx, "", "hi")\<close> with an empty
  function name. Through the proxy inside \<^verbatim>\<open>main.handleErr\<close>, called from line 13
  of \<^verbatim>\<open>main.someFunc\<close>, the line names \<open>runtime.main\<close>; the direct call on line 13
  of \<^verbatim>\<open>main.someFunc\<close> names \<open>main.main\<close>. Both report \<open>main.go#13\<close>, neither names
  \<open>main.someFunc\<close>, and the two lines differ.
\<close>

theorem proxy_names_other_function:
  "write (final (UplevelLogger_call (lg_Up1 ex_tracer) (Tracef (Str ''ctx'') [] ''hi'' []) ()
                   ex_proxy ex_timing ex_live)) =
     Some \<lparr>buf = [(Some 7, ''T: LOG[42]: main.go#13: ctx: runtime.main: Trace: hi\<newline>'')],
           cap = 1, closed = False\<rparr> \<and>
   write (final (Logger_call ex_tracer (Tracef (Str ''ctx'') [] ''hi'' []) ()
                   ex_direct ex_timing ex_live)) =
     Some \<lparr>buf = [(Some 7, ''T: LOG[42]: main.go#13: ctx: main.main: Trace: hi\<newline>'')],
           cap = 1, closed = False\<rparr>"
proof -
  have p: "dtFile 4 [] ex_proxy ex_live = Inr (''T'', ''main.go#13'', ''runtime.main'', 42)"
    by (simp add: dtFile_def makeslice_def maxAlloc_def ex_live_fields runtime_Caller_def
          runtime_Callers_def ex_proxy_def user_frames_def lib_frame_def path_Split_def
          Func_Name_def fmtArg_def showInt_def showNat.simps digit_def)
  have d: "dtFile 3 [] ex_direct ex_live = Inr (''T'', ''main.go#13'', ''main.main'', 42)"
    by (simp add: dtFile_def makeslice_def maxAlloc_def ex_live_fields runtime_Caller_def
          runtime_Callers_def ex_direct_def user_frames_def lib_frame_def path_Split_def
          Func_Name_def fmtArg_def showInt_def showNat.simps digit_def)
  have l: "lg_level ex_tracer () = 4" "ul_level (lg_Up1 ex_tracer) () = 4"
    "ul_up (lg_Up1 ex_tracer) = 2"
    by (simp_all add: ex_tracer_def NewLogger_def Level_defs)
  show ?thesis
    by (simp add: l Level_defs Up1_def resolved_def p d operands_def ex_live_fields
          ex_live_Dev_get ex_timing_def output_def rendered_def payload_def locked_def
          enqueue_def fmtArg_def showInt_def showNat.simps digit_def)
qed

section \<open>DataBlock and DataString\<close>

text \<open>The block body: every line that is not empty, after a tab and before a newline.\<close>

lemma tab_lines_body:
  "tab_lines ls = concat (map (\<lambda>l. TAB # l @ [NL]) (filter (\<lambda>l. l \<noteq> []) ls))"
  by (induction ls) (simp_all add: fmtArg_def)

text \<open>
  Inside the library, \<^verbatim>\<open>DataBlock\<close> on a string goes on to \<^verbatim>\<open>DataString\<close> on that
  string at the next uplevel; on a value that is not a string and that
  \<^verbatim>\<open>json.MarshalIndent\<close> serialises, to \<^verbatim>\<open>DataString\<close> on the indented JSON; on a
  value that cannot be serialised, to \<^verbatim>\<open>DataString\<close> on the text of the error.
\<close>

lemma DataBlock_delegates:
  "Uplevel_call lvl (DataBlock c f (Str v)) e t s =
     Uplevel_call (lvl + 1) (DataString c f v) e t s \<and>
   (json_MarshalIndent x = Inr doc \<longrightarrow>
      Uplevel_call lvl (DataBlock c f (Basic x)) e t s =
        Uplevel_call (lvl + 1) (DataString c f doc) e t s) \<and>
   (json_MarshalIndent x = Inl msg \<longrightarrow>
      Uplevel_call lvl (DataBlock c f (Basic x)) e t s =
        Uplevel_call (lvl + 1) (DataString c f msg) e t s)"
  by simp

text \<open>
  In test mode and with an explicit function name, as in the tests of the package:
  \<^verbatim>\<open>log.DataBlock\<close> on NaN queues the block with the text of the serialisation error
  and on 5 the block with its JSON.
\<close>

lemma DataBlock_in_test_mode:
  "json_MarshalIndent ex_NaN = Inl ''json: unsupported value: NaN'' \<and>
   write (final (log_call (DataBlock (Str ''TEST'') ''moo'' (Basic ex_NaN)) ex_DataBlock ex_timing
                   (ex_live\<lparr>test := 1\<rparr>))) =
     Some \<lparr>buf = [(Some 7, ''2009/11/10 15:00:00.000: LOG[69910]: file.go#512: TEST: moo: DATA:\<newline>'' @
                            [TAB] @ ''json: unsupported value: NaN\<newline>'')],
           cap = 1, closed = False\<rparr> \<and>
   json_MarshalIndent (VInt 5) = Inr ''5'' \<and>
   write (final (log_call (DataBlock (Str ''TEST'') ''moo'' (Basic (VInt 5))) ex_DataBlock ex_timing
                   (ex_live\<lparr>test := 1\<rparr>))) =
     Some \<lparr>buf = [(Some 7, ''2009/11/10 15:00:00.000: LOG[69910]: file.go#512: TEST: moo: DATA:\<newline>'' @
                            [TAB] @ ''5\<newline>'')],
           cap = 1, closed = False\<rparr>"
proof -
  let ?s = "ex_live\<lparr>test := 1\<rparr>"
  have j: "json_MarshalIndent ex_NaN = Inl ''json: unsupported value: NaN''"
    "json_MarshalIndent (VInt 5) = Inr ''5''"
    by (simp_all add: ex_NaN_def showInt_def showNat.simps digit_def)
  have d: "dtFile k ''moo'' ex_DataBlock ?s = Inr (test_time, ''file.go#512'', ''moo'', 69910)" for k
    by (simp add: dtFile_def)
  have g: "Dev_get DevData ?s = Some 7"
    using ex_live_Dev_get(7) by (simp add: Dev_get_def)
  have ds: "write (final (Uplevel_DataString k (Str ''TEST'') ''moo'' m ex_DataBlock ex_timing ?s)) =
     Some \<lparr>buf = [(Some 7, ''2009/11/10 15:00:00.000: LOG[69910]: file.go#512: TEST: moo: DATA:\<newline>'' @
                            tab_lines (bytes_Split m))],
           cap = 1, closed = False\<rparr>"
    if "m \<noteq> []" and "last (tab_lines (bytes_Split m)) = NL" and "tab_lines (bytes_Split m) \<noteq> []" for k m
    using that
    by (simp add: Uplevel_DataString_def resolved_def d g operands_def ex_live_fields
          ex_timing_def output_def rendered_def payload_def locked_def enqueue_def test_time_def
          fmtArg_def showInt_def showNat.simps digit_def)
  have t1: "tab_lines (bytes_Split ''json: unsupported value: NaN'') =
              [TAB] @ ''json: unsupported value: NaN\<newline>''"
    "tab_lines (bytes_Split ''5'') = [TAB] @ ''5\<newline>''"
    by (simp_all add: fmtArg_def)
  from DataBlock_delegates [of Up1 "Str ''TEST''" "''moo''" "''a\<newline>b''" ex_DataBlock ex_timing ?s
         ex_NaN "''''" "''json: unsupported value: NaN''"] j
  have 1: "Uplevel_call Up1 (DataBlock (Str ''TEST'') ''moo'' (Basic ex_NaN)) ex_DataBlock ex_timing ?s =
           Uplevel_call (Up1 + 1) (DataString (Str ''TEST'') ''moo'' ''json: unsupported value: NaN'')
             ex_DataBlock ex_timing ?s"
    by simp
  from DataBlock_delegates [of Up1 "Str ''TEST''" "''moo''" "''a\<newline>b''" ex_DataBlock ex_timing ?s
         "VInt 5" "''5''" "''''"] j
  have 2: "Uplevel_call Up1 (DataBlock (Str ''TEST'') ''moo'' (Basic (VInt 5))) ex_DataBlock ex_timing ?s =
           Uplevel_call (Up1 + 1) (DataString (Str ''TEST'') ''moo'' ''5'') ex_DataBlock ex_timing ?s"
    by simp
  show ?thesis
    unfolding log_call_def 1 2
    using j by (simp add: ds t1 fmtArg_def)
qed

text \<open>
  With an explicit function name, \<^verbatim>\<open>log.DataBlock\<close> on a string and
  \<^verbatim>\<open>log.DataString\<close> on that string, called from the same line, do the same, in test
  mode and outside of it.
\<close>

lemma DataBlock_explicit_name:
  assumes "f \<noteq> []"
  shows "log_call (DataBlock c f (Str v)) ex_DataBlock t s =
         log_call (DataString c f v) ex_DataString t s"
proof -
  have "dtFile 4 f ex_DataBlock s = dtFile 3 f ex_DataString s"
    using assms
    by (simp add: dtFile_def runtime_Caller_def ex_DataBlock_def ex_DataString_def
          user_frames_def lib_frame_def)
  then show ?thesis
    by (simp add: log_call_def Up1_def Uplevel_DataString_def resolved_def)
qed

text \<open>
  C9. \<^verbatim>\<open>log.DataBlock(ctx, "", "abc")\<close> and \<^verbatim>\<open>log.DataString(ctx, "", "abc")\<close>, each
  called on line 13 of \<^verbatim>\<open>main.someFunc\<close> in non-test mode with an empty function
  name, do not queue the same line: both report \<open>main.go#13\<close> and the block body
  \<open>abc\<close>, but the line of \<^verbatim>\<open>DataBlock\<close> names \<open>runtime.main\<close> and the line of
  \<^verbatim>\<open>DataString\<close> names \<open>main.main\<close>.
\<close>

theorem DataBlock_names_other_function:
  "test ex_live \<noteq> 1 \<and>
   write (final (log_call (DataBlock (Str ''ctx'') [] (Str ''abc'')) ex_DataBlock ex_timing
                   ex_live)) =
     Some \<lparr>buf = [(Some 7, ''T: LOG[42]: main.go#13: ctx: runtime.main: DATA:\<newline>'' @
                            [TAB] @ ''abc\<newline>'')],
           cap = 1, closed = False\<rparr> \<and>
   write (final (log_call (DataString (Str ''ctx'') [] ''abc'') ex_DataString ex_timing
                   ex_live)) =
     Some \<lparr>buf = [(Some 7, ''T: LOG[42]: main.go#13: ctx: main.main: DATA:\<newline>'' @
                            [TAB] @ ''abc\<newline>'')],
           cap = 1, closed = False\<rparr>"
proof -
  have t: "test ex_live \<noteq> 1" by (simp add: ex_live_fields)
  have b: "dtFile 4 [] ex_DataBlock ex_live = Inr (''T'', ''main.go#13'', ''runtime.main'', 42)"
    by (simp add: dtFile_def makeslice_def maxAlloc_def ex_live_fields runtime_Caller_def
          runtime_Callers_def ex_DataBlock_def user_frames_def lib_frame_def path_Split_def
          Func_Name_def fmtArg_def showInt_def showNat.simps digit_def)
  have d: "dtFile 3 [] ex_DataString ex_live = Inr (''T'', ''main.go#13'', ''main.main'', 42)"
    by (simp add: dtFile_def makeslice_def maxAlloc_def ex_live_fields runtime_Caller_def
          runtime_Callers_def ex_DataString_def user_frames_def lib_frame_def path_Split_def
          Func_Name_def fmtArg_def showInt_def showNat.simps digit_def)
  have 1: "write (final (log_call (DataBlock (Str ''ctx'') [] (Str ''abc'')) ex_DataBlock
                           ex_timing ex_live)) =
     Some \<lparr>buf = [(Some 7, ''T: LOG[42]: main.go#13: ctx: runtime.main: DATA:\<newline>'' @
                            [TAB] @ ''abc\<newline>'')],
           cap = 1, closed = False\<rparr>"
    by (simp add: log_call_def Up1_def Uplevel_DataString_def resolved_def b operands_def
          ex_live_fields ex_live_Dev_get ex_timing_def output_def rendered_def payload_def
          locked_def enqueue_def fmtArg_def showInt_def showNat.simps digit_def)
  have 2: "write (final (log_call (DataString (Str ''ctx'') [] ''abc'') ex_DataString
                           ex_timing ex_live)) =
     Some \<lparr>buf = [(Some 7, ''T: LOG[42]: main.go#13: ctx: main.main: DATA:\<newline>'' @
                            [TAB] @ ''abc\<newline>'')],
           cap = 1, closed = False\<rparr>"
    by (simp add: log_call_def Up1_def Uplevel_DataString_def resolved_def d operands_def
          ex_live_fields ex_live_Dev_get ex_timing_def output_def rendered_def payload_def
          locked_def enqueue_def fmtArg_def showInt_def showNat.simps digit_def)
  from t 1 2 show ?thesis by simp
qed

end
